theory Spec2Isabelle
  imports Main
begin

text \<open>
  A shallow embedding of the orchestration core of hivemind-go: the history strategies
  (package \<open>history\<close>), the action codec and the agent loop (package \<open>agent\<close>), the shared
  context (package \<open>tools\<close>) and the parallel task delegator (package \<open>assistants\<close>).

  Conventions.  A Go \<open>string\<close> is a byte sequence and is modelled as \<open>string\<close>; text outside
  ASCII is written as its UTF-8 bytes.  A Go \<open>error\<close> is modelled by its message
  (\<open>err.Error()\<close>), which is all the code ever does with one (\<open>%v\<close>, \<open>%w\<close>); a \<open>nil\<close> error is
  \<open>None\<close>.  A Go map is a partial function; the order in which \<open>range\<close> visits its keys is
  not specified by the language, so every \<open>range\<close> over a map takes the order as an
  argument.  Everything outside the repository (the model endpoint, tool executions,
  the clock, \<open>encoding/json\<close>, \<open>encoding/gob\<close>, \<open>uuid\<close>) is an argument as well.  Logging
  is left out.
\<close>

section \<open>Go builtins and library functions used by the code\<close>

text \<open>\<open>make([]T, n)\<close>: a slice of \<open>n\<close> zero values.\<close>

definition make_slice :: "'a \<Rightarrow> nat \<Rightarrow> 'a list" where
  "make_slice z n = replicate n z"

text \<open>
  The builtin \<open>copy(dst, src)\<close> overwrites the first \<open>min (len dst) (len src)\<close> elements of
  \<open>dst\<close> with those of \<open>src\<close>; the function returns the new contents of \<open>dst\<close>.
\<close>

definition go_copy :: "'a list \<Rightarrow> 'a list \<Rightarrow> 'a list" where
  "go_copy dst src = (let n = min (length dst) (length src) in take n src @ drop n dst)"

text \<open>
  \<open>strings.Index(s, sep)\<close> and \<open>strings.LastIndex(s, sep)\<close> for a one-byte \<open>sep\<close> (the code
  only searches for an opening and a closing brace): the position of the first (last)
  occurrence, or \<open>-1\<close>.
\<close>

fun strings_Index :: "string \<Rightarrow> char \<Rightarrow> int" where
  "strings_Index [] c = -1"
| "strings_Index (x # xs) c =
     (if x = c then 0
      else (let i = strings_Index xs c in if i = -1 then -1 else i + 1))"

fun strings_LastIndex :: "string \<Rightarrow> char \<Rightarrow> int" where
  "strings_LastIndex [] c = -1"
| "strings_LastIndex (x # xs) c =
     (let i = strings_LastIndex xs c
      in if i \<noteq> -1 then i + 1 else if x = c then 0 else -1)"

text \<open>The slice expression \<open>s[lo:hi]\<close>, for \<open>0 \<le> lo \<le> hi \<le> len s\<close>.\<close>

definition go_slice :: "'a list \<Rightarrow> nat \<Rightarrow> nat \<Rightarrow> 'a list" where
  "go_slice s lo hi = take (hi - lo) (drop lo s)"

text \<open>\<open>strings.Join(elems, sep)\<close>.\<close>

fun strings_Join :: "string list \<Rightarrow> string \<Rightarrow> string" where
  "strings_Join [] sep = []"
| "strings_Join [x] sep = x"
| "strings_Join (x # y # ys) sep = x @ sep @ strings_Join (y # ys) sep"

text \<open>The verb \<open>%d\<close>: an integer in decimal.\<close>

fun digits :: "nat \<Rightarrow> string" where
  "digits n =
     (if n < 10 then [''0123456789'' ! n]
      else digits (n div 10) @ [''0123456789'' ! (n mod 10)])"

definition fmt_d :: "int \<Rightarrow> string" where
  "fmt_d i = (if i < 0 then ''-'' @ digits (nat (- i)) else digits (nat i))"

section \<open>Messages and history strategies\<close>

text \<open>\<open>types.Message\<close> has three string fields.\<close>

record Message =
  Role :: string
  Content :: string
  Type :: string

text \<open>The zero value of the struct, which \<open>make\<close> fills a fresh slice with.\<close>

definition zero_Message :: Message where
  "zero_Message = \<lparr>Role = [], Content = [], Type = []\<rparr>"

text \<open>
  \<open>history.Strategy\<close> is an interface.  The repository implements it twice
  (\<open>NoOpStrategy\<close> and \<open>KeepLastN\<close>); any other implementation is a function on message
  slices.
\<close>

text \<open>
  The field \<open>N\<close> of \<open>KeepLastN\<close> is a Go \<open>int\<close>.  \<open>Apply\<close> compares it and, when it lies
  strictly between zero and the length, subtracts it from the length; nothing can wrap.
\<close>

datatype Strategy =
    NoOpStrategy
  | KeepLastN int
  | OtherStrategy "Message list \<Rightarrow> Message list"

definition NoOpStrategy_Apply :: "Message list \<Rightarrow> Message list" where
  "NoOpStrategy_Apply messages =
     (let copiedMessages = make_slice zero_Message (length messages)
      in go_copy copiedMessages messages)"

definition KeepLastN_Apply :: "int \<Rightarrow> Message list \<Rightarrow> Message list" where
  "KeepLastN_Apply N messages =
     (if N \<le> 0 \<or> N \<ge> int (length messages) then
        (let copiedMessages = make_slice zero_Message (length messages)
         in go_copy copiedMessages messages)
      else
        (let start = int (length messages) - N;
             truncated = drop (nat start) messages;
             copiedMessages = make_slice zero_Message (length truncated)
         in go_copy copiedMessages truncated))"

fun Apply :: "Strategy \<Rightarrow> Message list \<Rightarrow> Message list" where
  "Apply NoOpStrategy messages = NoOpStrategy_Apply messages"
| "Apply (KeepLastN N) messages = KeepLastN_Apply N messages"
| "Apply (OtherStrategy f) messages = f messages"

section \<open>The action codec\<close>

text \<open>
  \<open>json.Unmarshal\<close> decodes an object into \<open>map[string]interface{}\<close>: a value is \<open>nil\<close>, a
  \<open>bool\<close>, a \<open>float64\<close>, a \<open>string\<close>, a \<open>[]interface{}\<close> or again a map.  Nothing in the code
  looks inside a \<open>float64\<close>, so the type is left unspecified.
\<close>

typedecl float64

datatype jsonv =
    JNull
  | JBool bool
  | JNumber float64
  | JString string
  | JArray "jsonv list"
  | JObject "(string \<times> jsonv) list"

text \<open>
  \<open>LLMResponseAction\<close>.  A \<open>nil\<close> map and an empty map answer every lookup alike, so both
  are the empty partial function.
\<close>

record LLMResponseAction =
  Action :: string
  ActionInput :: "string \<rightharpoonup> jsonv"
  Thought :: string
  Status :: string

text \<open>
  The two error messages of \<open>parseLLMResponse\<close>, as the UTF-8 bytes of the
  source's literals: "no valid JSON object could be found in the response" and "parsing
  the LLM response JSON failed: %w".
\<close>

definition errNoJSONObject :: "string" where
  "errNoJSONObject =
     [CHR 0xE6, CHR 0x97, CHR 0xA0, CHR 0xE6, CHR 0xB3, CHR 0x95, CHR 0xE5, CHR 0x9C, CHR 0xA8,
     CHR 0xE5, CHR 0x93, CHR 0x8D, CHR 0xE5, CHR 0xBA, CHR 0x94, CHR 0xE4, CHR 0xB8, CHR 0xAD,
     CHR 0xE6, CHR 0x89, CHR 0xBE, CHR 0xE5, CHR 0x88, CHR 0xB0, CHR 0xE6, CHR 0x9C, CHR 0x89,
     CHR 0xE6, CHR 0x95, CHR 0x88, CHR 0xE7, CHR 0x9A, CHR 0x84] @ '' JSON '' @ [CHR 0xE5,
     CHR 0xAF, CHR 0xB9, CHR 0xE8, CHR 0xB1, CHR 0xA1]"

definition errJSONDecode :: "string \<Rightarrow> string" where
  "errJSONDecode err =
     [CHR 0xE8, CHR 0xA7, CHR 0xA3, CHR 0xE6, CHR 0x9E, CHR 0x90] @ '' LLM '' @ [CHR 0xE5,
     CHR 0x93, CHR 0x8D, CHR 0xE5, CHR 0xBA, CHR 0x94] @ '' JSON '' @ [CHR 0xE5, CHR 0xA4,
     CHR 0xB1, CHR 0xE8, CHR 0xB4, CHR 0xA5] @ '': '' @ err"

text \<open>
  \<open>JSONOutputLLM.parseLLMResponse\<close>.  The argument \<open>unmarshal\<close> stands for
  \<open>json.Unmarshal([]byte(jsonStr), &parsedResponse)\<close>: the decoded value, or the decoder's
  error message.
\<close>

definition parseLLMResponse :: "(string \<Rightarrow> string + 'a) \<Rightarrow> string \<Rightarrow> string + 'a" where
  "parseLLMResponse unmarshal responseText =
     (let start = strings_Index responseText (CHR ''{'');
          endIdx = strings_LastIndex responseText (CHR ''}'')
      in if start = -1 \<or> endIdx = -1 \<or> start > endIdx then Inl errNoJSONObject
         else
           (let jsonStr = go_slice responseText (nat start) (nat (endIdx + 1))
            in case unmarshal jsonStr of
                 Inl err \<Rightarrow> Inl (errJSONDecode err)
               | Inr parsedResponse \<Rightarrow> Inr parsedResponse))"

text \<open>
  The specification's wording, for comparison with the code: "the first balanced
  \<open>{...}\<close> span" of a text.  \<open>balanced_rest d cs\<close> reads \<open>cs\<close> with \<open>d\<close> braces open and
  returns the text up to the brace that closes the outermost one.
\<close>

fun balanced_rest :: "nat \<Rightarrow> string \<Rightarrow> string option" where
  "balanced_rest d [] = None"
| "balanced_rest d (c # cs) =
     (if c = CHR ''{'' then map_option ((#) c) (balanced_rest (Suc d) cs)
      else if c = CHR ''}'' then
        (if d \<le> 1 then Some [c] else map_option ((#) c) (balanced_rest (d - 1) cs))
      else map_option ((#) c) (balanced_rest d cs))"

fun spec_first_balanced_span :: "string \<Rightarrow> string option" where
  "spec_first_balanced_span [] = None"
| "spec_first_balanced_span (c # cs) =
     (if c = CHR ''{'' then
        (case balanced_rest 1 cs of
           Some r \<Rightarrow> Some (c # r)
         | None \<Rightarrow> spec_first_balanced_span cs)
      else spec_first_balanced_span cs)"

section \<open>Tools and the system prompt\<close>

text \<open>
  \<open>tools.Tool\<close> is an interface.  A tool is modelled by what its three pure methods return
  (\<open>Name()\<close>, \<open>Description()\<close>, \<open>Parameters()\<close>); what \<open>Execute\<close> does is up to the tool and the
  world around it, and is an argument of the loop below.
\<close>

record Tool =
  Name :: string
  Description :: string
  Parameters :: string

text \<open>
  What the code takes from Go's standard library: \<open>json.Unmarshal\<close> into an
  \<open>LLMResponseAction\<close>, \<open>json.Indent\<close>, and the verb \<open>%v\<close> on an argument map.  A failure is
  \<open>Inl\<close> of the error's message.
\<close>

record golib =
  json_Unmarshal :: "string \<Rightarrow> string + LLMResponseAction"
  json_Indent :: "string \<Rightarrow> string + string"
  fmt_v :: "(string \<rightharpoonup> jsonv) \<Rightarrow> string"

text \<open>
  \<open>for k, v := range m\<close> visits every entry of the map once, in an order the language does
  not fix.  \<open>go_range order m\<close> lists the entries in the order \<open>order\<close> names their keys; it
  covers the whole map when \<open>order\<close> names every key.
\<close>

fun entries :: "'k list \<Rightarrow> ('k \<rightharpoonup> 'v) \<Rightarrow> ('k \<times> 'v) list" where
  "entries [] m = []"
| "entries (k # ks) m =
     (case m k of None \<Rightarrow> entries ks m | Some v \<Rightarrow> (k, v) # entries ks m)"

definition go_range :: "'k list \<Rightarrow> ('k \<rightharpoonup> 'v) \<Rightarrow> ('k \<times> 'v) list" where
  "go_range order m = entries (remdups order) m"

text \<open>The error and the rendering of \<open>FormatForPrompt\<close>.\<close>

definition err_indent :: "string \<Rightarrow> string \<Rightarrow> string" where
  "err_indent name err =
     ''failed to indent parameters JSON for tool '' @ name @ '': '' @ err"

definition fmt_tool :: "string \<Rightarrow> string \<Rightarrow> string \<Rightarrow> string" where
  "fmt_tool name description params =
     ''Tool Name: '' @ name @ [CHR 0x0A] @ ''Description: '' @ description @ [CHR 0x0A] @
     ''Parameters Schema: '' @ params"

definition FormatForPrompt :: "golib \<Rightarrow> Tool \<Rightarrow> string + string" where
  "FormatForPrompt lib t =
     (case json_Indent lib (Parameters t) of
        Inl err \<Rightarrow> Inl (err_indent (Name t) err)
      | Inr indentedParams \<Rightarrow> Inr (fmt_tool (Name t) (Description t) indentedParams))"

text \<open>
  The default system prompt of \<open>NewAgent\<close> ("You are a helpful AI
  assistant.").
\<close>

definition default_systemPrompt :: "string" where
  "default_systemPrompt =
     [CHR 0xE4, CHR 0xBD, CHR 0xA0, CHR 0xE6, CHR 0x98, CHR 0xAF, CHR 0xE4, CHR 0xB8, CHR 0x80,
     CHR 0xE4, CHR 0xB8, CHR 0xAA, CHR 0xE6, CHR 0x9C, CHR 0x89, CHR 0xE7, CHR 0x94, CHR 0xA8,
     CHR 0xE7, CHR 0x9A, CHR 0x84] @ '' AI '' @ [CHR 0xE5, CHR 0x8A, CHR 0xA9, CHR 0xE6,
     CHR 0x89, CHR 0x8B, CHR 0xE3, CHR 0x80, CHR 0x82]"

text \<open>
  The JSON schema of the response format that \<open>buildSystemPrompt\<close> appends
  to the prompt (the raw string literal \<open>formatSection\<close>).
\<close>

definition formatSection :: "string" where
  "formatSection =
     ''{'' @ [CHR 0x0A] @ ''    \"type\": \"object\",'' @ [CHR 0x0A] @
     ''    \"properties\": {'' @ [CHR 0x0A] @ ''        \"thought\": {'' @ [CHR 0x0A] @
     ''            \"type\": \"string\",'' @ [CHR 0x0A] @ ''            \"description\": \"'' @
     [CHR 0xE5, CHR 0x9C, CHR 0xA8, CHR 0xE8, CHR 0xBF, CHR 0x99, CHR 0xE9, CHR 0x87, CHR 0x8C,
     CHR 0xE9, CHR 0x80, CHR 0x90, CHR 0xE6, CHR 0xAD, CHR 0xA5, CHR 0xE6, CHR 0x80, CHR 0x9D,
     CHR 0xE8, CHR 0x80, CHR 0x83, CHR 0xE3, CHR 0x80, CHR 0x82, CHR 0xE5, CHR 0x88, CHR 0x86,
     CHR 0xE6, CHR 0x9E, CHR 0x90, CHR 0xE5, CHR 0xBD, CHR 0x93, CHR 0xE5, CHR 0x89, CHR 0x8D,
     CHR 0xE6, CHR 0x83, CHR 0x85, CHR 0xE5, CHR 0x86, CHR 0xB5, CHR 0xE3, CHR 0x80, CHR 0x81,
     CHR 0xE7, CHR 0x9B, CHR 0xAE, CHR 0xE6, CHR 0xA0, CHR 0x87, CHR 0xE3, CHR 0x80, CHR 0x81,
     CHR 0xE5, CHR 0x8F, CHR 0xAF, CHR 0xE7, CHR 0x94, CHR 0xA8, CHR 0xE5, CHR 0xB7, CHR 0xA5,
     CHR 0xE5, CHR 0x85, CHR 0xB7, CHR 0xE5, CHR 0x92, CHR 0x8C, CHR 0xE5, CHR 0xAF, CHR 0xB9,
     CHR 0xE8, CHR 0xAF, CHR 0x9D, CHR 0xE5, CHR 0x8E, CHR 0x86, CHR 0xE5, CHR 0x8F, CHR 0xB2,
     CHR 0xE3, CHR 0x80, CHR 0x82, CHR 0xE5, CHR 0x86, CHR 0xB3, CHR 0xE5, CHR 0xAE, CHR 0x9A,
     CHR 0xE6, CHR 0x98, CHR 0xAF, CHR 0xE8, CHR 0xB0, CHR 0x83, CHR 0xE7, CHR 0x94, CHR 0xA8,
     CHR 0xE5, CHR 0xB7, CHR 0xA5, CHR 0xE5, CHR 0x85, CHR 0xB7, CHR 0xE8, CHR 0xBF, CHR 0x98,
     CHR 0xE6, CHR 0x98, CHR 0xAF, CHR 0xE4, CHR 0xBD, CHR 0xBF, CHR 0xE7, CHR 0x94,
     CHR 0xA8] @ '' '' @ [CHR 0x27] @ ''finish'' @ [CHR 0x27] @ '' '' @ [CHR 0xE5, CHR 0x8A,
     CHR 0xA8, CHR 0xE4, CHR 0xBD, CHR 0x9C, CHR 0xE6, CHR 0x9D, CHR 0xA5, CHR 0xE6, CHR 0x8F,
     CHR 0x90, CHR 0xE4, CHR 0xBE, CHR 0x9B, CHR 0xE6, CHR 0x9C, CHR 0x80, CHR 0xE7, CHR 0xBB,
     CHR 0x88, CHR 0xE7, CHR 0xAD, CHR 0x94, CHR 0xE6, CHR 0xA1, CHR 0x88, CHR 0xE3, CHR 0x80,
     CHR 0x82] @ ''\"'' @ [CHR 0x0A] @ ''        },'' @ [CHR 0x0A] @
     ''        \"action\": {'' @ [CHR 0x0A] @ ''            \"type\": \"string\",'' @
     [CHR 0x0A] @ ''            \"description\": \"'' @ [CHR 0xE9, CHR 0x80, CHR 0x89,
     CHR 0xE6, CHR 0x8B, CHR 0xA9, CHR 0xE4, CHR 0xB8, CHR 0x8B, CHR 0xE4, CHR 0xB8, CHR 0x80,
     CHR 0xE4, CHR 0xB8, CHR 0xAA, CHR 0xE5, CHR 0x8A, CHR 0xA8, CHR 0xE4, CHR 0xBD, CHR 0x9C,
     CHR 0xE3, CHR 0x80, CHR 0x82, CHR 0xE5, CHR 0xBF, CHR 0x85, CHR 0xE9, CHR 0xA1, CHR 0xBB,
     CHR 0xE6, CHR 0x98, CHR 0xAF, CHR 0xE5, CHR 0x8F, CHR 0xAF, CHR 0xE7, CHR 0x94, CHR 0xA8,
     CHR 0xE7, CHR 0x9A, CHR 0x84, CHR 0xE5, CHR 0xB7, CHR 0xA5, CHR 0xE5, CHR 0x85, CHR 0xB7,
     CHR 0xE5, CHR 0x90, CHR 0x8D, CHR 0xE7, CHR 0xA7, CHR 0xB0, CHR 0xE4, CHR 0xB9, CHR 0x8B,
     CHR 0xE4, CHR 0xB8, CHR 0x80] @ '', '' @ [CHR 0x27] @ ''wait'' @ [CHR 0x27] @ '', '' @
     [CHR 0xE6, CHR 0x88, CHR 0x96] @ '' '' @ [CHR 0x27] @ ''finish'' @ [CHR 0x27, CHR 0xE3,
     CHR 0x80, CHR 0x82] @ ''\"'' @ [CHR 0x0A] @ ''        },'' @ [CHR 0x0A] @
     ''        \"action_input\": {'' @ [CHR 0x0A] @ ''            \"type\": \"object\",'' @
     [CHR 0x0A] @ ''            \"description\": \"'' @ [CHR 0xE5, CHR 0xB7, CHR 0xA5,
     CHR 0xE5, CHR 0x85, CHR 0xB7, CHR 0xE8, CHR 0xB0, CHR 0x83, CHR 0xE7, CHR 0x94, CHR 0xA8,
     CHR 0xE7, CHR 0x9A, CHR 0x84, CHR 0xE5, CHR 0x8F, CHR 0x82, CHR 0xE6, CHR 0x95, CHR 0xB0,
     CHR 0xE6, CHR 0x88, CHR 0x96, CHR 0xE6, CHR 0x9C, CHR 0x80, CHR 0xE7, CHR 0xBB, CHR 0x88,
     CHR 0xE5, CHR 0x93, CHR 0x8D, CHR 0xE5, CHR 0xBA, CHR 0x94, CHR 0xE3, CHR 0x80, CHR 0x82,
     CHR 0xE5, CHR 0xA6, CHR 0x82, CHR 0xE6, CHR 0x9E, CHR 0x9C] @ '' action '' @ [CHR 0xE6,
     CHR 0x98, CHR 0xAF, CHR 0xE5, CHR 0xB7, CHR 0xA5, CHR 0xE5, CHR 0x85, CHR 0xB7, CHR 0xE5,
     CHR 0x90, CHR 0x8D, CHR 0xE7, CHR 0xA7, CHR 0xB0, CHR 0xEF, CHR 0xBC, CHR 0x8C, CHR 0xE8,
     CHR 0xAF, CHR 0xB7, CHR 0xE6, CHR 0x8F, CHR 0x90, CHR 0xE4, CHR 0xBE, CHR 0x9B, CHR 0xE8,
     CHR 0xAF, CHR 0xA5, CHR 0xE5, CHR 0xB7, CHR 0xA5, CHR 0xE5, CHR 0x85, CHR 0xB7, CHR 0xE6,
     CHR 0x89, CHR 0x80, CHR 0xE9, CHR 0x9C, CHR 0x80, CHR 0xE7, CHR 0x9A, CHR 0x84, CHR 0xE5,
     CHR 0x8F, CHR 0x82, CHR 0xE6, CHR 0x95, CHR 0xB0, CHR 0xEF, CHR 0xBC, CHR 0x9B, CHR 0xE5,
     CHR 0xA6, CHR 0x82, CHR 0xE6, CHR 0x9E, CHR 0x9C, CHR 0xE6, CHR 0x98, CHR 0xAF] @ '' '' @
     [CHR 0x27] @ ''finish'' @ [CHR 0x27, CHR 0xEF, CHR 0xBC, CHR 0x8C, CHR 0xE8, CHR 0xAF,
     CHR 0xB7, CHR 0xE4, CHR 0xBD, CHR 0xBF, CHR 0xE7, CHR 0x94, CHR 0xA8] @ '' '' @
     [CHR 0x27] @ ''final_response'' @ [CHR 0x27] @ '' '' @ [CHR 0xE4, CHR 0xBD, CHR 0x9C,
     CHR 0xE4, CHR 0xB8, CHR 0xBA, CHR 0xE6, CHR 0xAD, CHR 0xA4, CHR 0xE5, CHR 0xA4, CHR 0x84,
     CHR 0xE7, CHR 0x9A, CHR 0x84, CHR 0xE9, CHR 0x94, CHR 0xAE, CHR 0xE6, CHR 0x9D, CHR 0xA5,
     CHR 0xE6, CHR 0x8F, CHR 0x90, CHR 0xE4, CHR 0xBE, CHR 0x9B, CHR 0xE6, CHR 0x9C, CHR 0x80,
     CHR 0xE7, CHR 0xBB, CHR 0x88, CHR 0xE5, CHR 0x93, CHR 0x8D, CHR 0xE5, CHR 0xBA, CHR 0x94,
     CHR 0xE3, CHR 0x80, CHR 0x82] @ ''\"'' @ [CHR 0x0A] @ ''        },'' @ [CHR 0x0A] @
     ''        \"status\": {'' @ [CHR 0x0A] @ ''            \"type\": \"string\",'' @
     [CHR 0x0A] @ ''            \"enum\": [\"continue\", \"complete\"],'' @ [CHR 0x0A] @
     ''            \"description\": \"'' @ [CHR 0xE5, CHR 0xA6, CHR 0x82, CHR 0xE6, CHR 0x9E,
     CHR 0x9C, CHR 0xE9, CHR 0x80, CHR 0x89, CHR 0xE6, CHR 0x8B, CHR 0xA9, CHR 0xE4, CHR 0xBA,
     CHR 0x86, CHR 0xE5, CHR 0xB7, CHR 0xA5, CHR 0xE5, CHR 0x85, CHR 0xB7, CHR 0xEF, CHR 0xBC,
     CHR 0x8C, CHR 0xE5, CHR 0x88, CHR 0x99, CHR 0xE5, CHR 0xBF, CHR 0x85, CHR 0xE9, CHR 0xA1,
     CHR 0xBB, CHR 0xE6, CHR 0x98, CHR 0xAF] @ '' '' @ [CHR 0x27] @ ''continue'' @ [CHR 0x27,
     CHR 0xEF, CHR 0xBC, CHR 0x9B, CHR 0xE5, CHR 0xA6, CHR 0x82, CHR 0xE6, CHR 0x9E, CHR 0x9C,
     CHR 0xE9, CHR 0x80, CHR 0x89, CHR 0xE6, CHR 0x8B, CHR 0xA9, CHR 0xE4, CHR 0xBA,
     CHR 0x86] @ '' '' @ [CHR 0x27] @ ''finish'' @ [CHR 0x27, CHR 0xEF, CHR 0xBC, CHR 0x8C,
     CHR 0xE5, CHR 0x88, CHR 0x99, CHR 0xE5, CHR 0xBF, CHR 0x85, CHR 0xE9, CHR 0xA1, CHR 0xBB,
     CHR 0xE6, CHR 0x98, CHR 0xAF] @ '' '' @ [CHR 0x27] @ ''complete'' @ [CHR 0x27, CHR 0xE3,
     CHR 0x80, CHR 0x82] @ ''\"'' @ [CHR 0x0A] @ ''        }'' @ [CHR 0x0A] @ ''    },'' @
     [CHR 0x0A] @
     ''    \"required\": [\"thought\", \"action\", \"action_input\", \"status\"]'' @
     [CHR 0x0A] @ ''}''"

text \<open>
  The template of the full system prompt, with its three \<open>%s\<close>: the agent's
  prompt, the tool catalogue under the heading "available tools", the notes on
  background execution, and the response format.
\<close>

definition finalPrompt :: "string \<Rightarrow> string \<Rightarrow> string \<Rightarrow> string" where
  "finalPrompt systemPrompt toolSection schema =
     systemPrompt @ [CHR 0x0A, CHR 0x0A] @ ''--- '' @ [CHR 0xE5, CHR 0x8F, CHR 0xAF, CHR 0xE7,
     CHR 0x94, CHR 0xA8, CHR 0xE5, CHR 0xB7, CHR 0xA5, CHR 0xE5, CHR 0x85, CHR 0xB7] @
     '' ---'' @ [CHR 0x0A] @ toolSection @ [CHR 0x0A] @ ''--- '' @ [CHR 0xE5, CHR 0x90,
     CHR 0x8E, CHR 0xE5, CHR 0x8F, CHR 0xB0, CHR 0xE6, CHR 0x89, CHR 0xA7, CHR 0xE8, CHR 0xA1,
     CHR 0x8C, CHR 0xE4, CHR 0xB8, CHR 0x8E, CHR 0xE4, CHR 0xBB, CHR 0xBB, CHR 0xE5, CHR 0x8A,
     CHR 0xA1, CHR 0xE8, CHR 0xB0, CHR 0x83, CHR 0xE5, CHR 0xBA, CHR 0xA6] @ '' ---'' @
     [CHR 0x0A] @ ''- '' @ [CHR 0xE5, CHR 0x9C, CHR 0xA8, CHR 0xE5, CHR 0xB7, CHR 0xA5,
     CHR 0xE5, CHR 0x85, CHR 0xB7, CHR 0xE5, CHR 0x8F, CHR 0x82, CHR 0xE6, CHR 0x95, CHR 0xB0,
     CHR 0xE4, CHR 0xB8, CHR 0xAD, CHR 0xE8, CHR 0xAE, CHR 0xBE, CHR 0xE7, CHR 0xBD,
     CHR 0xAE] @ '' \"run_in_background\": true '' @ [CHR 0xE6, CHR 0x9D, CHR 0xA5, CHR 0xE5,
     CHR 0xBC, CHR 0x82, CHR 0xE6, CHR 0xAD, CHR 0xA5, CHR 0xE8, CHR 0xBF, CHR 0x90, CHR 0xE8,
     CHR 0xA1, CHR 0x8C, CHR 0xE4, CHR 0xBB, CHR 0xBB, CHR 0xE5, CHR 0x8A, CHR 0xA1, CHR 0xE3,
     CHR 0x80, CHR 0x82, CHR 0x0A] @ ''- '' @ [CHR 0xE5, CHR 0x90, CHR 0x8E, CHR 0xE5,
     CHR 0x8F, CHR 0xB0, CHR 0xE4, CHR 0xBB, CHR 0xBB, CHR 0xE5, CHR 0x8A, CHR 0xA1, CHR 0xE7,
     CHR 0x9A, CHR 0x84, CHR 0xE7, CHR 0xBB, CHR 0x93, CHR 0xE6, CHR 0x9E, CHR 0x9C, CHR 0xE5,
     CHR 0xB0, CHR 0x86, CHR 0xE5, CHR 0x9C, CHR 0xA8, CHR 0xE5, CHR 0x85, CHR 0xB6, CHR 0xE5,
     CHR 0xAE, CHR 0x8C, CHR 0xE6, CHR 0x88, CHR 0x90, CHR 0xE5, CHR 0x90, CHR 0x8E, CHR 0xE8,
     CHR 0x87, CHR 0xAA, CHR 0xE5, CHR 0x8A, CHR 0xA8, CHR 0xE6, CHR 0xB3, CHR 0xA8, CHR 0xE5,
     CHR 0x85, CHR 0xA5, CHR 0xE3, CHR 0x80, CHR 0x82, CHR 0x0A] @ ''- '' @ [CHR 0xE5,
     CHR 0xBD, CHR 0x93, CHR 0xE4, CHR 0xBD, CHR 0xA0, CHR 0xE9, CHR 0x9C, CHR 0x80, CHR 0xE8,
     CHR 0xA6, CHR 0x81, CHR 0xE7, CHR 0xAD, CHR 0x89, CHR 0xE5, CHR 0xBE, CHR 0x85, CHR 0xE5,
     CHR 0x90, CHR 0x8E, CHR 0xE5, CHR 0x8F, CHR 0xB0, CHR 0xE7, CHR 0xBB, CHR 0x93, CHR 0xE6,
     CHR 0x9E, CHR 0x9C, CHR 0xE6, CHR 0x89, CHR 0x8D, CHR 0xE8, CHR 0x83, CHR 0xBD, CHR 0xE7,
     CHR 0xBB, CHR 0xA7, CHR 0xE7, CHR 0xBB, CHR 0xAD, CHR 0xE6, CHR 0x97, CHR 0xB6, CHR 0xEF,
     CHR 0xBC, CHR 0x8C, CHR 0xE8, CHR 0xAF, CHR 0xB7, CHR 0xE4, CHR 0xBD, CHR 0xBF, CHR 0xE7,
     CHR 0x94, CHR 0xA8] @ '' '' @ [CHR 0x27] @ ''wait'' @ [CHR 0x27] @ '' '' @ [CHR 0xE5,
     CHR 0x8A, CHR 0xA8, CHR 0xE4, CHR 0xBD, CHR 0x9C, CHR 0xE3, CHR 0x80, CHR 0x82, CHR 0x0A,
     CHR 0x0A] @ ''--- '' @ [CHR 0xE5, CHR 0x93, CHR 0x8D, CHR 0xE5, CHR 0xBA, CHR 0x94,
     CHR 0xE6, CHR 0xA0, CHR 0xBC, CHR 0xE5, CHR 0xBC, CHR 0x8F, CHR 0xE8, CHR 0xA6, CHR 0x81,
     CHR 0xE6, CHR 0xB1, CHR 0x82] @ '' ---'' @ [CHR 0x0A, CHR 0xE4, CHR 0xBD, CHR 0xA0,
     CHR 0xE5, CHR 0xBF, CHR 0x85, CHR 0xE9, CHR 0xA1, CHR 0xBB, CHR 0xE4, CHR 0xB8, CHR 0xA5,
     CHR 0xE6, CHR 0xA0, CHR 0xBC, CHR 0xE4, CHR 0xBB, CHR 0xA5] @ '' JSON '' @ [CHR 0xE6,
     CHR 0xA0, CHR 0xBC, CHR 0xE5, CHR 0xBC, CHR 0x8F, CHR 0xE5, CHR 0x93, CHR 0x8D, CHR 0xE5,
     CHR 0xBA, CHR 0x94, CHR 0xE3, CHR 0x80, CHR 0x82, CHR 0xE4, CHR 0xB8, CHR 0x8D, CHR 0xE8,
     CHR 0xA6, CHR 0x81, CHR 0xE5, CHR 0x9C, CHR 0xA8] @ '' JSON '' @ [CHR 0xE5, CHR 0xAF,
     CHR 0xB9, CHR 0xE8, CHR 0xB1, CHR 0xA1, CHR 0xE4, CHR 0xB9, CHR 0x8B, CHR 0xE5, CHR 0xA4,
     CHR 0x96, CHR 0xE6, CHR 0xB7, CHR 0xBB, CHR 0xE5, CHR 0x8A, CHR 0xA0, CHR 0xE4, CHR 0xBB,
     CHR 0xBB, CHR 0xE4, CHR 0xBD, CHR 0x95, CHR 0xE5, CHR 0x85, CHR 0xB6, CHR 0xE4, CHR 0xBB,
     CHR 0x96, CHR 0xE6, CHR 0x96, CHR 0x87, CHR 0xE6, CHR 0x9C, CHR 0xAC, CHR 0xE3, CHR 0x80,
     CHR 0x82, CHR 0xE8, CHR 0xBE, CHR 0x93, CHR 0xE5, CHR 0x87, CHR 0xBA, CHR 0xE4, CHR 0xB8,
     CHR 0x80, CHR 0xE4, CHR 0xB8, CHR 0xAA, CHR 0xE5, CHR 0x8D, CHR 0x95, CHR 0xE4, CHR 0xB8,
     CHR 0x80, CHR 0xE7, CHR 0x9A, CHR 0x84] @ '' JSON '' @ [CHR 0xE5, CHR 0xAF, CHR 0xB9,
     CHR 0xE8, CHR 0xB1, CHR 0xA1, CHR 0xEF, CHR 0xBC, CHR 0x8C, CHR 0xE8, CHR 0xAF, CHR 0xA5,
     CHR 0xE5, CHR 0xAF, CHR 0xB9, CHR 0xE8, CHR 0xB1, CHR 0xA1, CHR 0xE5, CHR 0xBF, CHR 0x85,
     CHR 0xE9, CHR 0xA1, CHR 0xBB, CHR 0xE7, CHR 0xAC, CHR 0xA6, CHR 0xE5, CHR 0x90, CHR 0x88,
     CHR 0xE4, CHR 0xBB, CHR 0xA5, CHR 0xE4, CHR 0xB8, CHR 0x8B] @ '' JSON '' @ [CHR 0xE6,
     CHR 0xA8, CHR 0xA1, CHR 0xE5, CHR 0xBC, CHR 0x8F] @ '':'' @ [CHR 0x0A] @ schema"

text \<open>\<open>JSONOutputLLM.buildSystemPrompt\<close>: the loop over the tool map, then the template.\<close>

fun tool_sections :: "golib \<Rightarrow> (string \<times> Tool) list \<Rightarrow> string \<Rightarrow> string + string" where
  "tool_sections lib [] toolSection = Inr toolSection"
| "tool_sections lib ((k, tool) # rest) toolSection =
     (case FormatForPrompt lib tool of
        Inl err \<Rightarrow> Inl err
      | Inr formattedTool \<Rightarrow>
          tool_sections lib rest (toolSection @ formattedTool @ [CHR 0x0A, CHR 0x0A]))"

definition buildSystemPrompt ::
  "golib \<Rightarrow> string list \<Rightarrow> string \<Rightarrow> (string \<rightharpoonup> Tool) \<Rightarrow> string + string" where
  "buildSystemPrompt lib order systemPrompt toolMap =
     (case tool_sections lib (go_range order toolMap) [] of
        Inl err \<Rightarrow> Inl err
      | Inr toolSection \<Rightarrow> Inr (finalPrompt systemPrompt toolSection formatSection))"

section \<open>The agent\<close>

text \<open>
  A background job.  Its channels, context and cancel function belong to the goroutine
  that executes the tool; what the loop finds in the channels when it polls is an
  argument of the loop.
\<close>

record Job =
  ID :: string
  ToolName :: string
  ToolInput :: "string \<rightharpoonup> jsonv"

text \<open>
  The fields of \<open>Agent\<close> that the loop reads and writes.  The client, the codec, the logger
  and the two mutexes carry no state of their own (so the option \<open>WithLogger\<close> has nothing
  to set here).  \<open>maxIterations\<close> is a Go \<open>int\<close>; the loop only compares it with a counter
  that stays below it, so no arithmetic on it can wrap.
\<close>

record Agent =
  name :: string
  tools :: "string \<rightharpoonup> Tool"
  systemPrompt :: string
  maxIterations :: int
  historyStrategy :: Strategy
  messages :: "Message list"
  backgroundJobs :: "string \<rightharpoonup> Job"

type_synonym AgentOption = "Agent \<Rightarrow> Agent"

definition WithTools :: "Tool list \<Rightarrow> AgentOption" where
  "WithTools agentTools a = a\<lparr>tools := foldl (\<lambda>m t. m(Name t \<mapsto> t)) Map.empty agentTools\<rparr>"

definition WithSystemPrompt :: "string \<Rightarrow> AgentOption" where
  "WithSystemPrompt prompt a = a\<lparr>systemPrompt := prompt\<rparr>"

definition WithMaxIterations :: "int \<Rightarrow> AgentOption" where
  "WithMaxIterations n a = a\<lparr>maxIterations := n\<rparr>"

definition WithHistoryStrategy :: "Strategy \<Rightarrow> AgentOption" where
  "WithHistoryStrategy strategy a = a\<lparr>historyStrategy := strategy\<rparr>"

definition NewAgent :: "string \<Rightarrow> AgentOption list \<Rightarrow> Agent" where
  "NewAgent nm opts =
     foldl (\<lambda>a opt. opt a)
       \<lparr>name = nm,
        tools = Map.empty,
        systemPrompt = default_systemPrompt,
        maxIterations = 25,
        historyStrategy = NoOpStrategy,
        messages = [],
        backgroundJobs = Map.empty\<rparr>
       opts"

definition addMessage :: "Agent \<Rightarrow> string \<Rightarrow> string \<Rightarrow> string \<Rightarrow> Agent" where
  "addMessage a role content msgType =
     a\<lparr>messages := messages a @ [\<lparr>Role = role, Content = content, Type = msgType\<rparr>]\<rparr>"

text \<open>
  The type assertions \<open>v.(string)\<close> and \<open>v.(bool)\<close> on the result of a map lookup, in the
  form \<open>x, _ := m[k].(T)\<close>: the zero value when the key is missing or the value has another
  type.
\<close>

definition string_or_zero :: "jsonv option \<Rightarrow> string" where
  "string_or_zero v = (case v of Some (JString s) \<Rightarrow> s | _ \<Rightarrow> [])"

definition bool_or_zero :: "jsonv option \<Rightarrow> bool" where
  "bool_or_zero v = (case v of Some (JBool b) \<Rightarrow> b | _ \<Rightarrow> False)"

subsection \<open>The world around one pass of the loop\<close>

text \<open>
  What a \<open>select\<close> on a job's two channels finds: nothing yet, a result, or an error (by
  its rendering under \<open>%v\<close>).  The goroutine closes both channels when it ends, and a
  closed channel yields the zero value, so a finished job may also be found with the
  empty result or with the error \<open><nil>\<close>; which case \<open>select\<close> takes is up to the runtime.
\<close>

datatype poll = NotReady | ResultReady string | ErrReady string

text \<open>
  How \<open>tool.Execute\<close> ends inside \<open>executeTool\<close>: with a result, with the tool's error, or
  not before the context is done (by the context's error).
\<close>

datatype exec_outcome = ExecResult string | ExecError string | ExecDone string

text \<open>
  Everything one pass of the loop takes from outside: the order in which \<open>range\<close> visits
  the job map and the tool map, what each job's channels hold, what the model answers to
  the messages it is sent (\<open>llmClient.Invoke\<close>, a reply or an error), how a tool
  execution ends, and the identifier \<open>uuid.New\<close> produces.
\<close>

record world =
  jobsOrder :: "string list"
  jobPoll :: "string \<Rightarrow> poll"
  llmReply :: "(string \<times> string) list \<Rightarrow> string + string"
  toolsOrder :: "string list"
  toolExec :: "Tool \<Rightarrow> (string \<rightharpoonup> jsonv) \<Rightarrow> exec_outcome"
  newJobID :: string

subsection \<open>Message texts\<close>

text \<open>
  The note appended when the loop leaves the waiting state with no job left ("all
  background tasks are complete, please summarise the results").
\<close>

definition note_all_jobs_done :: "string" where
  "note_all_jobs_done =
     [CHR 0xE6, CHR 0x89, CHR 0x80, CHR 0xE6, CHR 0x9C, CHR 0x89, CHR 0xE5, CHR 0x90, CHR 0x8E,
     CHR 0xE5, CHR 0x8F, CHR 0xB0, CHR 0xE4, CHR 0xBB, CHR 0xBB, CHR 0xE5, CHR 0x8A, CHR 0xA1,
     CHR 0xE5, CHR 0xB7, CHR 0xB2, CHR 0xE5, CHR 0xAE, CHR 0x8C, CHR 0xE6, CHR 0x88, CHR 0x90,
     CHR 0xEF, CHR 0xBC, CHR 0x8C, CHR 0xE8, CHR 0xAF, CHR 0xB7, CHR 0xE6, CHR 0x80, CHR 0xBB,
     CHR 0xE7, CHR 0xBB, CHR 0x93, CHR 0xE7, CHR 0xBB, CHR 0x93, CHR 0xE6, CHR 0x9E, CHR 0x9C,
     CHR 0xE3, CHR 0x80, CHR 0x82]"

text \<open>The error of \<open>Run\<close> when the model call fails.\<close>

definition err_llm_failed :: "int \<Rightarrow> string \<Rightarrow> string" where
  "err_llm_failed iterationCount err =
     ''iteration '' @ fmt_d iterationCount @ '': failed to get LLM response: '' @ err"

text \<open>
  The message appended when the reply cannot be parsed ("parsing the LLM response
  failed: %v. Telling the LLM about this error and retrying.").
\<close>

definition msg_parse_error :: "string \<Rightarrow> string" where
  "msg_parse_error err =
     [CHR 0xE8, CHR 0xA7, CHR 0xA3, CHR 0xE6, CHR 0x9E, CHR 0x90] @ '' LLM '' @ [CHR 0xE5,
     CHR 0x93, CHR 0x8D, CHR 0xE5, CHR 0xBA, CHR 0x94, CHR 0xE5, CHR 0xA4, CHR 0xB1, CHR 0xE8,
     CHR 0xB4, CHR 0xA5] @ '': '' @ err @ ''. '' @ [CHR 0xE5, CHR 0xB0, CHR 0x86, CHR 0xE6,
     CHR 0xAD, CHR 0xA4, CHR 0xE9, CHR 0x94, CHR 0x99, CHR 0xE8, CHR 0xAF, CHR 0xAF, CHR 0xE5,
     CHR 0x91, CHR 0x8A, CHR 0xE7, CHR 0x9F, CHR 0xA5] @ '' LLM '' @ [CHR 0xE5, CHR 0xB9,
     CHR 0xB6, CHR 0xE9, CHR 0x87, CHR 0x8D, CHR 0xE8, CHR 0xAF, CHR 0x95, CHR 0xE3, CHR 0x80,
     CHR 0x82]"

text \<open>
  The note appended when completion is requested while background jobs are still tracked
  ("system notice: your request to finish was received, but background tasks are still
  running. The system will wait for them before the final summary. To wait without
  finishing, use the 'wait' action.").
\<close>

definition note_finish_pending :: "string" where
  "note_finish_pending =
     [CHR 0xE7, CHR 0xB3, CHR 0xBB, CHR 0xE7, CHR 0xBB, CHR 0x9F, CHR 0xE6, CHR 0x8F, CHR 0x90,
     CHR 0xE7, CHR 0xA4, CHR 0xBA] @ '': '' @ [CHR 0xE4, CHR 0xBD, CHR 0xA0, CHR 0xE7,
     CHR 0x9A, CHR 0x84, CHR 0xE5, CHR 0xAE, CHR 0x8C, CHR 0xE6, CHR 0x88, CHR 0x90, CHR 0xE8,
     CHR 0xAF, CHR 0xB7, CHR 0xE6, CHR 0xB1, CHR 0x82, CHR 0xE5, CHR 0xB7, CHR 0xB2, CHR 0xE6,
     CHR 0x94, CHR 0xB6, CHR 0xE5, CHR 0x88, CHR 0xB0, CHR 0xEF, CHR 0xBC, CHR 0x8C, CHR 0xE4,
     CHR 0xBD, CHR 0x86, CHR 0xE5, CHR 0x90, CHR 0x8E, CHR 0xE5, CHR 0x8F, CHR 0xB0, CHR 0xE4,
     CHR 0xBB, CHR 0xBB, CHR 0xE5, CHR 0x8A, CHR 0xA1, CHR 0xE4, CHR 0xBB, CHR 0x8D, CHR 0xE5,
     CHR 0x9C, CHR 0xA8, CHR 0xE8, CHR 0xBF, CHR 0x90, CHR 0xE8, CHR 0xA1, CHR 0x8C, CHR 0xE3,
     CHR 0x80, CHR 0x82, CHR 0xE7, CHR 0xB3, CHR 0xBB, CHR 0xE7, CHR 0xBB, CHR 0x9F, CHR 0xE5,
     CHR 0xB0, CHR 0x86, CHR 0xE7, CHR 0xAD, CHR 0x89, CHR 0xE5, CHR 0xBE, CHR 0x85, CHR 0xE5,
     CHR 0xAE, CHR 0x83, CHR 0xE4, CHR 0xBB, CHR 0xAC, CHR 0xE5, CHR 0xAE, CHR 0x8C, CHR 0xE6,
     CHR 0x88, CHR 0x90, CHR 0xE5, CHR 0x90, CHR 0x8E, CHR 0xE5, CHR 0x86, CHR 0x8D, CHR 0xE7,
     CHR 0x94, CHR 0x9F, CHR 0xE6, CHR 0x88, CHR 0x90, CHR 0xE6, CHR 0x9C, CHR 0x80, CHR 0xE7,
     CHR 0xBB, CHR 0x88, CHR 0xE6, CHR 0x91, CHR 0x98, CHR 0xE8, CHR 0xA6, CHR 0x81, CHR 0xE3,
     CHR 0x80, CHR 0x82, CHR 0xE8, CHR 0xA6, CHR 0x81, CHR 0xE6, CHR 0x98, CHR 0x8E, CHR 0xE7,
     CHR 0xA1, CHR 0xAE, CHR 0xE7, CHR 0xAD, CHR 0x89, CHR 0xE5, CHR 0xBE, CHR 0x85, CHR 0xE8,
     CHR 0x80, CHR 0x8C, CHR 0xE4, CHR 0xB8, CHR 0x8D, CHR 0xE7, CHR 0xBB, CHR 0x93, CHR 0xE6,
     CHR 0x9D, CHR 0x9F, CHR 0xEF, CHR 0xBC, CHR 0x8C, CHR 0xE8, CHR 0xAF, CHR 0xB7, CHR 0xE4,
     CHR 0xBD, CHR 0xBF, CHR 0xE7, CHR 0x94, CHR 0xA8] @ '' '' @ [CHR 0x27] @ ''wait'' @
     [CHR 0x27] @ '' '' @ [CHR 0xE5, CHR 0x8A, CHR 0xA8, CHR 0xE4, CHR 0xBD, CHR 0x9C,
     CHR 0xE3, CHR 0x80, CHR 0x82]"

text \<open>
  The warning appended when the action is \<open>wait\<close> and no background job is
  tracked ("warning: you used the 'wait' action, but no background task is running.
  Choose another action or finish with 'finish'.").
\<close>

definition warn_wait_no_jobs :: "string" where
  "warn_wait_no_jobs =
     [CHR 0xE8, CHR 0xAD, CHR 0xA6, CHR 0xE5, CHR 0x91, CHR 0x8A] @ '': '' @ [CHR 0xE4,
     CHR 0xBD, CHR 0xA0, CHR 0xE4, CHR 0xBD, CHR 0xBF, CHR 0xE7, CHR 0x94, CHR 0xA8, CHR 0xE4,
     CHR 0xBA, CHR 0x86] @ '' '' @ [CHR 0x27] @ ''wait'' @ [CHR 0x27] @ '' '' @ [CHR 0xE5,
     CHR 0x8A, CHR 0xA8, CHR 0xE4, CHR 0xBD, CHR 0x9C, CHR 0xEF, CHR 0xBC, CHR 0x8C, CHR 0xE4,
     CHR 0xBD, CHR 0x86, CHR 0xE6, CHR 0xB2, CHR 0xA1, CHR 0xE6, CHR 0x9C, CHR 0x89, CHR 0xE6,
     CHR 0xAD, CHR 0xA3, CHR 0xE5, CHR 0x9C, CHR 0xA8, CHR 0xE8, CHR 0xBF, CHR 0x90, CHR 0xE8,
     CHR 0xA1, CHR 0x8C, CHR 0xE7, CHR 0x9A, CHR 0x84, CHR 0xE5, CHR 0x90, CHR 0x8E, CHR 0xE5,
     CHR 0x8F, CHR 0xB0, CHR 0xE4, CHR 0xBB, CHR 0xBB, CHR 0xE5, CHR 0x8A, CHR 0xA1, CHR 0xE3,
     CHR 0x80, CHR 0x82, CHR 0xE8, CHR 0xAF, CHR 0xB7, CHR 0xE9, CHR 0x80, CHR 0x89, CHR 0xE6,
     CHR 0x8B, CHR 0xA9, CHR 0xE5, CHR 0x8F, CHR 0xA6, CHR 0xE4, CHR 0xB8, CHR 0x80, CHR 0xE4,
     CHR 0xB8, CHR 0xAA, CHR 0xE5, CHR 0x8A, CHR 0xA8, CHR 0xE4, CHR 0xBD, CHR 0x9C, CHR 0xE6,
     CHR 0x88, CHR 0x96, CHR 0xE4, CHR 0xBD, CHR 0xBF, CHR 0xE7, CHR 0x94, CHR 0xA8] @ '' '' @
     [CHR 0x27] @ ''finish'' @ [CHR 0x27] @ '' '' @ [CHR 0xE5, CHR 0xAE, CHR 0x8C, CHR 0xE6,
     CHR 0x88, CHR 0x90, CHR 0xE4, CHR 0xBB, CHR 0xBB, CHR 0xE5, CHR 0x8A, CHR 0xA1, CHR 0xE3,
     CHR 0x80, CHR 0x82]"

text \<open>
  The tool result that reports a failed execution ("tool '%s' failed: %v").
\<close>

definition msg_tool_failed :: "string \<Rightarrow> string \<Rightarrow> string" where
  "msg_tool_failed action err =
     [CHR 0xE5, CHR 0xB7, CHR 0xA5, CHR 0xE5, CHR 0x85, CHR 0xB7] @ '' '' @ [CHR 0x27] @
     action @ [CHR 0x27] @ '' '' @ [CHR 0xE6, CHR 0x89, CHR 0xA7, CHR 0xE8, CHR 0xA1, CHR 0x8C,
     CHR 0xE5, CHR 0xA4, CHR 0xB1, CHR 0xE8, CHR 0xB4, CHR 0xA5] @ '': '' @ err"

text \<open>
  The error message for an action that names no registered tool ("error: tool '%s' does
  not exist. Available tools: %s").
\<close>

definition msg_unknown_tool :: "string \<Rightarrow> string \<Rightarrow> string" where
  "msg_unknown_tool action names =
     [CHR 0xE9, CHR 0x94, CHR 0x99, CHR 0xE8, CHR 0xAF, CHR 0xAF] @ '': '' @ [CHR 0xE5,
     CHR 0xB7, CHR 0xA5, CHR 0xE5, CHR 0x85, CHR 0xB7] @ '' '' @ [CHR 0x27] @ action @
     [CHR 0x27] @ '' '' @ [CHR 0xE4, CHR 0xB8, CHR 0x8D, CHR 0xE5, CHR 0xAD, CHR 0x98,
     CHR 0xE5, CHR 0x9C, CHR 0xA8, CHR 0xE3, CHR 0x80, CHR 0x82, CHR 0xE5, CHR 0x8F, CHR 0xAF,
     CHR 0xE7, CHR 0x94, CHR 0xA8, CHR 0xE5, CHR 0xB7, CHR 0xA5, CHR 0xE5, CHR 0x85,
     CHR 0xB7] @ '': '' @ names"

text \<open>
  The fixed text \<open>Run\<close> returns when the iteration budget is exhausted ("the
  maximum number of iterations was reached, but no answer was found").
\<close>

definition fallback_text :: "string" where
  "fallback_text =
     [CHR 0xE5, CHR 0xB7, CHR 0xB2, CHR 0xE8, CHR 0xBE, CHR 0xBE, CHR 0xE5, CHR 0x88, CHR 0xB0,
     CHR 0xE6, CHR 0x9C, CHR 0x80, CHR 0xE5, CHR 0xA4, CHR 0xA7, CHR 0xE8, CHR 0xBF, CHR 0xAD,
     CHR 0xE4, CHR 0xBB, CHR 0xA3, CHR 0xE6, CHR 0xAC, CHR 0xA1, CHR 0xE6, CHR 0x95, CHR 0xB0,
     CHR 0xEF, CHR 0xBC, CHR 0x8C, CHR 0xE4, CHR 0xBD, CHR 0x86, CHR 0xE6, CHR 0x9C, CHR 0xAA,
     CHR 0xE6, CHR 0x89, CHR 0xBE, CHR 0xE5, CHR 0x88, CHR 0xB0, CHR 0xE7, CHR 0xAD, CHR 0x94,
     CHR 0xE6, CHR 0xA1, CHR 0x88, CHR 0xE3, CHR 0x80, CHR 0x82]"

text \<open>
  The message appended when a background job is started ("background task started. Task
  name: '%s', task ID: '%s'. You can go on with other operations; the result will arrive
  later.").
\<close>

definition msg_job_started :: "string \<Rightarrow> string \<Rightarrow> string" where
  "msg_job_started toolName jobID =
     [CHR 0xE5, CHR 0x90, CHR 0x8E, CHR 0xE5, CHR 0x8F, CHR 0xB0, CHR 0xE4, CHR 0xBB, CHR 0xBB,
     CHR 0xE5, CHR 0x8A, CHR 0xA1, CHR 0xE5, CHR 0xB7, CHR 0xB2, CHR 0xE5, CHR 0x90, CHR 0xAF,
     CHR 0xE5, CHR 0x8A, CHR 0xA8, CHR 0xE3, CHR 0x80, CHR 0x82, CHR 0xE4, CHR 0xBB, CHR 0xBB,
     CHR 0xE5, CHR 0x8A, CHR 0xA1, CHR 0xE5, CHR 0x90, CHR 0x8D, CHR 0xE7, CHR 0xA7,
     CHR 0xB0] @ '': '' @ [CHR 0x27] @ toolName @ [CHR 0x27] @ '', '' @ [CHR 0xE4, CHR 0xBB,
     CHR 0xBB, CHR 0xE5, CHR 0x8A, CHR 0xA1] @ ''ID: '' @ [CHR 0x27] @ jobID @ [CHR 0x27,
     CHR 0xE3, CHR 0x80, CHR 0x82, CHR 0xE4, CHR 0xBD, CHR 0xA0, CHR 0xE5, CHR 0x8F, CHR 0xAF,
     CHR 0xE4, CHR 0xBB, CHR 0xA5, CHR 0xE7, CHR 0xBB, CHR 0xA7, CHR 0xE7, CHR 0xBB, CHR 0xAD,
     CHR 0xE6, CHR 0x89, CHR 0xA7, CHR 0xE8, CHR 0xA1, CHR 0x8C, CHR 0xE5, CHR 0x85, CHR 0xB6,
     CHR 0xE4, CHR 0xBB, CHR 0x96, CHR 0xE6, CHR 0x93, CHR 0x8D, CHR 0xE4, CHR 0xBD, CHR 0x9C,
     CHR 0xEF, CHR 0xBC, CHR 0x8C, CHR 0xE7, CHR 0xA8, CHR 0x8D, CHR 0xE5, CHR 0x90, CHR 0x8E,
     CHR 0xE4, CHR 0xBC, CHR 0x9A, CHR 0xE8, CHR 0x87, CHR 0xAA, CHR 0xE5, CHR 0x8A, CHR 0xA8,
     CHR 0xE6, CHR 0x94, CHR 0xB6, CHR 0xE5, CHR 0x88, CHR 0xB0, CHR 0xE7, CHR 0xBB, CHR 0x93,
     CHR 0xE6, CHR 0x9E, CHR 0x9C, CHR 0xE3, CHR 0x80, CHR 0x82]"

text \<open>
  The messages that inject the outcome of a background job ("background task '%s' (%s)
  is complete.", the arguments under \<open>%v\<close>, and the result; and the same
  with "failed" and the error).
\<close>

definition msg_job_result :: "string \<Rightarrow> string \<Rightarrow> string \<Rightarrow> string \<Rightarrow> string" where
  "msg_job_result toolName jobID toolInput result =
     [CHR 0xE5, CHR 0x90, CHR 0x8E, CHR 0xE5, CHR 0x8F, CHR 0xB0, CHR 0xE4, CHR 0xBB, CHR 0xBB,
     CHR 0xE5, CHR 0x8A, CHR 0xA1] @ '' '' @ [CHR 0x27] @ toolName @ [CHR 0x27] @ '' ('' @
     jobID @ '') '' @ [CHR 0xE5, CHR 0xB7, CHR 0xB2, CHR 0xE5, CHR 0xAE, CHR 0x8C, CHR 0xE6,
     CHR 0x88, CHR 0x90, CHR 0xE3, CHR 0x80, CHR 0x82, CHR 0x0A, CHR 0xE5, CHR 0x8F, CHR 0x82,
     CHR 0xE6, CHR 0x95, CHR 0xB0] @ '': '' @ toolInput @ [CHR 0x0A, CHR 0xE7, CHR 0xBB,
     CHR 0x93, CHR 0xE6, CHR 0x9E, CHR 0x9C] @ '':'' @ [CHR 0x0A] @ result"

definition msg_job_failed :: "string \<Rightarrow> string \<Rightarrow> string \<Rightarrow> string \<Rightarrow> string" where
  "msg_job_failed toolName jobID toolInput err =
     [CHR 0xE5, CHR 0x90, CHR 0x8E, CHR 0xE5, CHR 0x8F, CHR 0xB0, CHR 0xE4, CHR 0xBB, CHR 0xBB,
     CHR 0xE5, CHR 0x8A, CHR 0xA1] @ '' '' @ [CHR 0x27] @ toolName @ [CHR 0x27] @ '' ('' @
     jobID @ '') '' @ [CHR 0xE5, CHR 0xA4, CHR 0xB1, CHR 0xE8, CHR 0xB4, CHR 0xA5, CHR 0xE3,
     CHR 0x80, CHR 0x82, CHR 0x0A, CHR 0xE5, CHR 0x8F, CHR 0x82, CHR 0xE6, CHR 0x95,
     CHR 0xB0] @ '': '' @ toolInput @ [CHR 0x0A, CHR 0xE9, CHR 0x94, CHR 0x99, CHR 0xE8,
     CHR 0xAF, CHR 0xAF] @ '': '' @ err"

text \<open>
  The error of \<open>executeTool\<close> when its context is done before the tool ends,
  300 seconds after the start at the latest ("tool execution timed out: %w").
\<close>

definition err_tool_timeout :: "string \<Rightarrow> string" where
  "err_tool_timeout err =
     [CHR 0xE5, CHR 0xB7, CHR 0xA5, CHR 0xE5, CHR 0x85, CHR 0xB7, CHR 0xE6, CHR 0x89, CHR 0xA7,
     CHR 0xE8, CHR 0xA1, CHR 0x8C, CHR 0xE8, CHR 0xB6, CHR 0x85, CHR 0xE6, CHR 0x97,
     CHR 0xB6] @ '': '' @ err"

text \<open>The error of \<open>Run\<close> when the system prompt cannot be built.\<close>

definition err_build_prompt :: "string \<Rightarrow> string" where
  "err_build_prompt err =
     ''failed to build system prompt: '' @ err"

subsection \<open>Background jobs and tool execution\<close>

definition startBackgroundTask ::
  "world \<Rightarrow> Agent \<Rightarrow> Tool \<Rightarrow> string \<Rightarrow> (string \<rightharpoonup> jsonv) \<Rightarrow> Agent" where
  "startBackgroundTask w a tool toolName args =
     (let jobID = newJobID w;
          job = \<lparr>ID = jobID, ToolName = toolName, ToolInput = args\<rparr>;
          a1 = a\<lparr>backgroundJobs := (backgroundJobs a)(jobID \<mapsto> job)\<rparr>;
          startMsg = msg_job_started toolName jobID
      in addMessage a1 ''user'' startMsg ''tool_result'')"

text \<open>
  \<open>checkAndInjectBackgroundJobs\<close>: the loop over the job map, one \<open>select\<close> per job.  The
  result is the agent and the flag \<open>injectedResult\<close>.
\<close>

fun inject_jobs :: "golib \<Rightarrow> world \<Rightarrow> (string \<times> Job) list \<Rightarrow> Agent \<times> bool \<Rightarrow> Agent \<times> bool" where
  "inject_jobs lib w [] (a, injectedResult) = (a, injectedResult)"
| "inject_jobs lib w ((jobID, job) # rest) (a, injectedResult) =
     (case jobPoll w jobID of
        ResultReady result \<Rightarrow>
          (let msg = msg_job_result (ToolName job) (ID job) (fmt_v lib (ToolInput job)) result;
               a1 = addMessage a ''user'' msg ''background_tool_result'';
               a2 = a1\<lparr>backgroundJobs := (backgroundJobs a1)(jobID := None)\<rparr>
           in inject_jobs lib w rest (a2, True))
      | ErrReady err \<Rightarrow>
          (let msg = msg_job_failed (ToolName job) (ID job) (fmt_v lib (ToolInput job)) err;
               a1 = addMessage a ''user'' msg ''background_tool_error'';
               a2 = a1\<lparr>backgroundJobs := (backgroundJobs a1)(jobID := None)\<rparr>
           in inject_jobs lib w rest (a2, True))
      | NotReady \<Rightarrow> inject_jobs lib w rest (a, injectedResult))"

definition checkAndInjectBackgroundJobs :: "golib \<Rightarrow> world \<Rightarrow> Agent \<Rightarrow> Agent \<times> bool" where
  "checkAndInjectBackgroundJobs lib w a =
     inject_jobs lib w (go_range (jobsOrder w) (backgroundJobs a)) (a, False)"

definition executeTool :: "world \<Rightarrow> Tool \<Rightarrow> (string \<rightharpoonup> jsonv) \<Rightarrow> string + string" where
  "executeTool w tool args =
     (case toolExec w tool args of
        ExecResult res \<Rightarrow> Inr res
      | ExecError err \<Rightarrow> Inl err
      | ExecDone ctxErr \<Rightarrow> Inl (err_tool_timeout ctxErr))"

definition getToolNames :: "world \<Rightarrow> Agent \<Rightarrow> string list" where
  "getToolNames w a = map fst (go_range (toolsOrder w) (tools a))"

subsection \<open>The loop of \<open>Run\<close>\<close>

text \<open>
  The two local variables of \<open>Run\<close> next to the agent.  One pass of the loop body either
  goes on to the next pass (\<open>continue\<close>, or the end of the body) or returns from \<open>Run\<close> with
  a text and an error (\<open>None\<close> for \<open>nil\<close>).
\<close>

record run_state =
  agent :: Agent
  isWaitingForJobs :: bool
  iterationCount :: int

datatype step = Continue run_state | Return Agent string "string option"

text \<open>The condition under which the loop takes an action for a request to finish.\<close>

definition signals_completion :: "LLMResponseAction \<Rightarrow> bool" where
  "signals_completion action \<longleftrightarrow>
     Status action = ''complete'' \<or> (Action action = ''finish'' \<and> Status action \<noteq> ''continue'')"

text \<open>
  The part of the loop body that acts on a parsed action: completion, \<open>wait\<close>, a known
  tool (in the background or not), an unknown tool.
\<close>

definition handle_action :: "golib \<Rightarrow> world \<Rightarrow> run_state \<Rightarrow> LLMResponseAction \<Rightarrow> step" where
  "handle_action lib w st action =
     (let a = agent st in
      if signals_completion action then
        (if backgroundJobs a \<noteq> Map.empty then
           Continue (st\<lparr>agent := addMessage a ''user'' note_finish_pending ''system_note'',
                        isWaitingForJobs := True\<rparr>)
         else
           (let finalResponse = string_or_zero (ActionInput action ''final_response'')
            in Return a finalResponse None))
      else if Action action = ''wait'' then
        (if backgroundJobs a \<noteq> Map.empty then Continue (st\<lparr>isWaitingForJobs := True\<rparr>)
         else Continue (st\<lparr>agent := addMessage a ''user'' warn_wait_no_jobs ''system_warning''\<rparr>))
      else
        (case tools a (Action action) of
           Some tool \<Rightarrow>
             (let runInBackground = bool_or_zero (ActionInput action ''run_in_background'') in
              if runInBackground then
                Continue (st\<lparr>agent := startBackgroundTask w a tool (Action action) (ActionInput action)\<rparr>)
              else
                (let toolResult =
                       (case executeTool w tool (ActionInput action) of
                          Inl err \<Rightarrow> msg_tool_failed (Action action) err
                        | Inr res \<Rightarrow> res)
                 in Continue (st\<lparr>agent := addMessage a ''user'' toolResult ''tool_result''\<rparr>)))
         | None \<Rightarrow>
             (let errorMsg =
                    msg_unknown_tool (Action action) (strings_Join (getToolNames w a) '', '')
              in Continue (st\<lparr>agent := addMessage a ''user'' errorMsg ''tool_error''\<rparr>))))"

text \<open>The messages sent to the model: the history strategy's view, role and content only.\<close>

definition llmMsgs_of :: "Agent \<Rightarrow> (string \<times> string) list" where
  "llmMsgs_of a =
     (let managedHistory = Apply (historyStrategy a) (messages a)
      in map (\<lambda>m. (Role m, Content m)) managedHistory)"

text \<open>One pass of the loop body.\<close>

definition loop_body :: "golib \<Rightarrow> world \<Rightarrow> run_state \<Rightarrow> step" where
  "loop_body lib w st =
     (let (a1, injectedResult) = checkAndInjectBackgroundJobs lib w (agent st);
          waiting = (if injectedResult then False else isWaitingForJobs st)
      in if waiting \<and> backgroundJobs a1 \<noteq> Map.empty then
           Continue (st\<lparr>agent := a1, isWaitingForJobs := waiting\<rparr>)
         else
           (let a2 = (if waiting then addMessage a1 ''user'' note_all_jobs_done ''system_note''
                      else a1);
                n = iterationCount st + 1;
                llmMsgs = llmMsgs_of a2
            in case llmReply w llmMsgs of
                 Inl err \<Rightarrow> Return a2 [] (Some (err_llm_failed n err))
               | Inr content \<Rightarrow>
                   (let a3 = addMessage a2 ''assistant'' content ''llm_output'' in
                    case parseLLMResponse (json_Unmarshal lib) content of
                      Inl err \<Rightarrow>
                        Continue \<lparr>agent = addMessage a3 ''user'' (msg_parse_error err) ''parse_error'',
                                  isWaitingForJobs = False, iterationCount = n\<rparr>
                    | Inr action \<Rightarrow>
                        handle_action lib w
                          \<lparr>agent = a3, isWaitingForJobs = False, iterationCount = n\<rparr> action)))"

text \<open>
  The loop.  A pass that finds jobs pending while waiting does not count against the
  budget, so the loop need not end: \<open>None\<close> is a run that never returns.  The result is the
  agent as \<open>Run\<close> leaves it, the number of passes made, and the two values returned.
  Pass \<open>t\<close> (counted from zero) takes what it needs from the world \<open>W t\<close>.
\<close>

record outcome =
  agentAfter :: Agent
  passes :: nat
  response :: string
  failure :: "string option"

partial_function (option) run_loop ::
  "golib \<Rightarrow> (nat \<Rightarrow> world) \<Rightarrow> nat \<Rightarrow> run_state \<Rightarrow> outcome option" where
  "run_loop lib W t st =
     (if iterationCount st < maxIterations (agent st) then
        (case loop_body lib (W t) st of
           Continue st' \<Rightarrow> run_loop lib W (Suc t) st'
         | Return a text err \<Rightarrow>
             Some \<lparr>agentAfter = a, passes = Suc t, response = text, failure = err\<rparr>)
      else
        Some \<lparr>agentAfter = agent st, passes = t, response = fallback_text, failure = None\<rparr>)"

text \<open>
  The state after \<open>k\<close> passes, while no pass has returned (used to speak about the states a
  run goes through).
\<close>

fun state_after :: "golib \<Rightarrow> (nat \<Rightarrow> world) \<Rightarrow> run_state \<Rightarrow> nat \<Rightarrow> run_state option" where
  "state_after lib W st 0 = Some st"
| "state_after lib W st (Suc k) =
     (case state_after lib W st k of
        None \<Rightarrow> None
      | Some s \<Rightarrow>
          (case loop_body lib (W k) s of
             Continue s' \<Rightarrow> Some s'
           | Return a text err \<Rightarrow> None))"

text \<open>The state in which \<open>Run\<close> enters its loop.\<close>

definition initial_state :: "Agent \<Rightarrow> string \<Rightarrow> string \<Rightarrow> run_state" where
  "initial_state a fullSystemPrompt userInput =
     (let a1 = addMessage a ''system'' fullSystemPrompt ''system_prompt'';
          a2 = addMessage a1 ''user'' userInput ''user_input''
      in \<lparr>agent = a2, isWaitingForJobs = False, iterationCount = 0\<rparr>)"

text \<open>\<open>Agent.Run\<close>.  \<open>promptOrder\<close> is the order in which the prompt lists the tools.\<close>

definition Run ::
  "golib \<Rightarrow> string list \<Rightarrow> (nat \<Rightarrow> world) \<Rightarrow> Agent \<Rightarrow> string \<Rightarrow> outcome option" where
  "Run lib promptOrder W a userInput =
     (case buildSystemPrompt lib promptOrder (systemPrompt a) (tools a) of
        Inl err \<Rightarrow>
          Some \<lparr>agentAfter = a, passes = 0, response = [], failure = Some (err_build_prompt err)\<rparr>
      | Inr fullSystemPrompt \<Rightarrow>
          run_loop lib W 0 (initial_state a fullSystemPrompt userInput))"

section \<open>The parallel task delegator\<close>

text \<open>
  How the goroutine of one task ends: the copy of the context fails, building the child
  agent fails, the child's run fails, or the child's run returns a text.  The child is
  another agent running against the same world; what it does is an argument.
\<close>

datatype child_outcome =
    CopyFailed string
  | BuildFailed string
  | RunFailed string
  | RunReturned string

text \<open>
  The argument error of \<open>ParallelTaskDelegator.Execute\<close> ("invalid argument:
  'tasks' must be a list of strings").
\<close>

definition err_tasks_not_list :: "string" where
  "err_tasks_not_list =
     [CHR 0xE6, CHR 0x97, CHR 0xA0, CHR 0xE6, CHR 0x95, CHR 0x88, CHR 0xE7, CHR 0x9A, CHR 0x84,
     CHR 0xE5, CHR 0x8F, CHR 0x82, CHR 0xE6, CHR 0x95, CHR 0xB0, CHR 0xEF, CHR 0xBC, CHR 0x9A,
     CHR 0x27] @ ''tasks'' @ [CHR 0x27] @ '' '' @ [CHR 0xE5, CHR 0xBF, CHR 0x85, CHR 0xE9,
     CHR 0xA1, CHR 0xBB, CHR 0xE6, CHR 0x98, CHR 0xAF, CHR 0xE4, CHR 0xB8, CHR 0x80, CHR 0xE4,
     CHR 0xB8, CHR 0xAA, CHR 0xE5, CHR 0xAD, CHR 0x97, CHR 0xE7, CHR 0xAC, CHR 0xA6, CHR 0xE4,
     CHR 0xB8, CHR 0xB2, CHR 0xE5, CHR 0x88, CHR 0x97, CHR 0xE8, CHR 0xA1, CHR 0xA8]"

text \<open>
  The result text of a task that is not a string ("the input of task #%d is invalid (not
  a string)").
\<close>

definition msg_task_invalid :: "int \<Rightarrow> string" where
  "msg_task_invalid i =
     [CHR 0xE4, CHR 0xBB, CHR 0xBB, CHR 0xE5, CHR 0x8A, CHR 0xA1] @ '' #'' @ fmt_d i @ '' '' @
     [CHR 0xE7, CHR 0x9A, CHR 0x84, CHR 0xE8, CHR 0xBE, CHR 0x93, CHR 0xE5, CHR 0x85, CHR 0xA5,
     CHR 0xE6, CHR 0x97, CHR 0xA0, CHR 0xE6, CHR 0x95, CHR 0x88, CHR 0xEF, CHR 0xBC, CHR 0x88,
     CHR 0xE4, CHR 0xB8, CHR 0x8D, CHR 0xE6, CHR 0x98, CHR 0xAF, CHR 0xE5, CHR 0xAD, CHR 0x97,
     CHR 0xE7, CHR 0xAC, CHR 0xA6, CHR 0xE4, CHR 0xB8, CHR 0xB2, CHR 0xEF, CHR 0xBC, CHR 0x89]"

text \<open>
  The three errors of a child task ("task #%d: creating the context failed: %w", "task
  #%d: building the agent failed: %w", "task #%d: execution failed: %w"), each formatted
  with the goroutine's \<open>index\<close>, and the result text of a failed run
  ("sub-agent execution failed: %v").
\<close>

definition err_task_copy :: "int \<Rightarrow> string \<Rightarrow> string" where
  "err_task_copy index err =
     [CHR 0xE4, CHR 0xBB, CHR 0xBB, CHR 0xE5, CHR 0x8A, CHR 0xA1] @ '' #'' @ fmt_d index @
     '': '' @ [CHR 0xE5, CHR 0x88, CHR 0x9B, CHR 0xE5, CHR 0xBB, CHR 0xBA, CHR 0xE4, CHR 0xB8,
     CHR 0x8A, CHR 0xE4, CHR 0xB8, CHR 0x8B, CHR 0xE6, CHR 0x96, CHR 0x87, CHR 0xE5, CHR 0xA4,
     CHR 0xB1, CHR 0xE8, CHR 0xB4, CHR 0xA5] @ '': '' @ err"

definition err_task_build :: "int \<Rightarrow> string \<Rightarrow> string" where
  "err_task_build index err =
     [CHR 0xE4, CHR 0xBB, CHR 0xBB, CHR 0xE5, CHR 0x8A, CHR 0xA1] @ '' #'' @ fmt_d index @
     '': '' @ [CHR 0xE6, CHR 0x9E, CHR 0x84, CHR 0xE5, CHR 0xBB, CHR 0xBA] @ '' agent '' @
     [CHR 0xE5, CHR 0xA4, CHR 0xB1, CHR 0xE8, CHR 0xB4, CHR 0xA5] @ '': '' @ err"

definition err_task_run :: "int \<Rightarrow> string \<Rightarrow> string" where
  "err_task_run index err =
     [CHR 0xE4, CHR 0xBB, CHR 0xBB, CHR 0xE5, CHR 0x8A, CHR 0xA1] @ '' #'' @ fmt_d index @
     '': '' @ [CHR 0xE6, CHR 0x89, CHR 0xA7, CHR 0xE8, CHR 0xA1, CHR 0x8C, CHR 0xE5, CHR 0xA4,
     CHR 0xB1, CHR 0xE8, CHR 0xB4, CHR 0xA5] @ '': '' @ err"

definition msg_task_run_failed :: "string \<Rightarrow> string" where
  "msg_task_run_failed err =
     [CHR 0xE5, CHR 0xAD, CHR 0x90] @ '' agent '' @ [CHR 0xE6, CHR 0x89, CHR 0xA7, CHR 0xE8,
     CHR 0xA1, CHR 0x8C, CHR 0xE5, CHR 0xA4, CHR 0xB1, CHR 0xE8, CHR 0xB4, CHR 0xA5] @ '': '' @
     err"

text \<open>
  The label of a section ("--- task #%d result ---" and a newline), which the loop
  formats with \<open>i+1\<close>, and the rendering of an error in it ("error: %v").
\<close>

definition task_header :: "int \<Rightarrow> string" where
  "task_header n =
     ''--- '' @ [CHR 0xE4, CHR 0xBB, CHR 0xBB, CHR 0xE5, CHR 0x8A, CHR 0xA1] @ '' #'' @
     fmt_d n @ '' '' @ [CHR 0xE7, CHR 0xBB, CHR 0x93, CHR 0xE6, CHR 0x9E, CHR 0x9C] @
     '' ---'' @ [CHR 0x0A]"

definition task_error :: "string \<Rightarrow> string" where
  "task_error err =
     [CHR 0xE9, CHR 0x94, CHR 0x99, CHR 0xE8, CHR 0xAF, CHR 0xAF] @ '': '' @ err"

text \<open>The two slices the tasks write to, each at its own index.\<close>

record slots =
  results :: "string list"
  errs :: "string option list"

text \<open>
  What is written at index \<open>i\<close>: by the loop itself for a task that is not a string, by
  the goroutine of the task otherwise.
\<close>

definition task_writes :: "(nat \<Rightarrow> string \<Rightarrow> child_outcome) \<Rightarrow> jsonv list \<Rightarrow> slots \<Rightarrow> nat \<Rightarrow> slots" where
  "task_writes child tasks s i =
     (case tasks ! i of
        JString taskDesc \<Rightarrow>
          (case child i taskDesc of
             CopyFailed err \<Rightarrow> s\<lparr>errs := (errs s)[i := Some (err_task_copy (int i) err)]\<rparr>
           | BuildFailed err \<Rightarrow> s\<lparr>errs := (errs s)[i := Some (err_task_build (int i) err)]\<rparr>
           | RunFailed err \<Rightarrow>
               s\<lparr>errs := (errs s)[i := Some (err_task_run (int i) err)],
                 results := (results s)[i := msg_task_run_failed err]\<rparr>
           | RunReturned result \<Rightarrow>
               s\<lparr>results := (results s)[i := result], errs := (errs s)[i := None]\<rparr>)
      | _ \<Rightarrow> s\<lparr>results := (results s)[i := msg_task_invalid (int i)]\<rparr>)"

text \<open>
  The tasks run concurrently and \<open>wg.Wait()\<close> returns when all are done.  \<open>schedule\<close> lists
  the indices of the tasks in the order in which their writes take effect.
\<close>

definition run_tasks :: "nat list \<Rightarrow> (nat \<Rightarrow> string \<Rightarrow> child_outcome) \<Rightarrow> jsonv list \<Rightarrow> slots" where
  "run_tasks schedule child tasks =
     foldl (task_writes child tasks)
       \<lparr>results = make_slice [] (length tasks), errs = make_slice None (length tasks)\<rparr>
       (filter (\<lambda>i. i < length tasks) schedule)"

text \<open>The loop that builds the final text and collects the errors.\<close>

definition aggregate_task :: "slots \<Rightarrow> string \<times> string list \<Rightarrow> nat \<Rightarrow> string \<times> string list" where
  "aggregate_task s acc i =
     (let (finalResult, aggregatedErrs) = acc;
          finalResult = finalResult @ task_header (int i + 1)
      in case errs s ! i of
           Some e \<Rightarrow>
             (let errStr = task_error e
              in (finalResult @ errStr @ [CHR 0x0A], aggregatedErrs @ [errStr]))
         | None \<Rightarrow> (finalResult @ results s ! i @ [CHR 0x0A], aggregatedErrs))"

text \<open>\<open>ParallelTaskDelegator.Execute\<close>: the text and the error it returns.\<close>

definition ParallelTaskDelegator_Execute ::
  "nat list \<Rightarrow> (nat \<Rightarrow> string \<Rightarrow> child_outcome) \<Rightarrow> (string \<rightharpoonup> jsonv) \<Rightarrow> string \<times> string option" where
  "ParallelTaskDelegator_Execute schedule child args =
     (case args ''tasks'' of
        Some (JArray tasks) \<Rightarrow>
          (let s = run_tasks schedule child tasks;
               (finalResult, aggregatedErrs) =
                 foldl (aggregate_task s) ([], []) [0..<length tasks]
           in if length aggregatedErrs > 0
              then (finalResult, Some (strings_Join aggregatedErrs ''; ''))
              else (finalResult, None))
      | _ \<Rightarrow> ([], Some err_tasks_not_list))"

text \<open>
  For comparison with the loops above: what task \<open>i\<close> leaves in its two slots, the section
  that the final text has for it, and the errors collected from a list of tasks.
\<close>

definition task_slot :: "(nat \<Rightarrow> string \<Rightarrow> child_outcome) \<Rightarrow> jsonv list \<Rightarrow> nat \<Rightarrow> string \<times> string option" where
  "task_slot child tasks i =
     (case tasks ! i of
        JString taskDesc \<Rightarrow>
          (case child i taskDesc of
             CopyFailed err \<Rightarrow> ([], Some (err_task_copy (int i) err))
           | BuildFailed err \<Rightarrow> ([], Some (err_task_build (int i) err))
           | RunFailed err \<Rightarrow> (msg_task_run_failed err, Some (err_task_run (int i) err))
           | RunReturned result \<Rightarrow> (result, None))
      | _ \<Rightarrow> (msg_task_invalid (int i), None))"

definition task_section :: "(nat \<Rightarrow> string \<Rightarrow> child_outcome) \<Rightarrow> jsonv list \<Rightarrow> nat \<Rightarrow> string" where
  "task_section child tasks i =
     task_header (int i + 1) @
     (case snd (task_slot child tasks i) of
        Some e \<Rightarrow> task_error e
      | None \<Rightarrow> fst (task_slot child tasks i)) @ [CHR 0x0A]"

fun task_errors :: "(nat \<Rightarrow> string \<Rightarrow> child_outcome) \<Rightarrow> jsonv list \<Rightarrow> nat list \<Rightarrow> string list" where
  "task_errors child tasks [] = []"
| "task_errors child tasks (i # rest) =
     (case snd (task_slot child tasks i) of
        Some e \<Rightarrow> task_error e # task_errors child tasks rest
      | None \<Rightarrow> task_errors child tasks rest)"

section \<open>The shared context\<close>

text \<open>
  A \<open>Context\<close> stores values of type \<open>interface{}\<close>.  What matters for copying is whether a
  value is held directly (\<open>nil\<close>, a string, a number, a boolean, a pointer, slice or map
  that is \<open>nil\<close>) or is a reference (a pointer, a slice, a map) to an object in memory that
  others may hold as well.  Memory is a list of objects, the address of an object is its
  position, and an object is the list of the values it holds, which may be references
  again: the one value a pointer points to, the elements of a slice, the values of a map.
\<close>

datatype gkind = KPointer | KSlice | KMap

datatype gval =
  GNil | GString string | GInt int | GBool bool | GNilRef gkind | GRef gkind nat

type_synonym heap = "gval list list"

record Context =
  data :: "string \<rightharpoonup> gval"
  shallowCopyKeys :: "string \<rightharpoonup> bool"



definition Get :: "Context \<Rightarrow> string \<Rightarrow> gval \<times> bool" where
  "Get c key = (case data c key of Some v \<Rightarrow> (v, True) | None \<Rightarrow> (GNil, False))"

definition GetString :: "Context \<Rightarrow> string \<Rightarrow> string \<times> bool" where
  "GetString c key =
     (case Get c key of
        (v, False) \<Rightarrow> ([], False)
      | (GString strVal, True) \<Rightarrow> (strVal, True)
      | (v, True) \<Rightarrow> ([], False))"

definition Delete :: "Context \<Rightarrow> string \<Rightarrow> Context" where
  "Delete c key = c\<lparr>data := (data c)(key := None),
                     shallowCopyKeys := (shallowCopyKeys c)(key := None)\<rparr>"












subsection \<open>What can be seen and changed through a value\<close>

text \<open>
  An object refers to another when it holds a reference to it.  Through a value one
  reaches the object it refers to and every object that one refers to in turn; this is
  what a holder of the value can read and change.  \<open>view h v\<close> is what a holder of \<open>v\<close> sees
  in the memory \<open>h\<close>.
\<close>

definition edges :: "heap \<Rightarrow> (nat \<times> nat) set" where
  "edges h = {(a, b). a < length h \<and> b < length h \<and> (\<exists>k. GRef k b \<in> set (h ! a))}"

definition reach :: "heap \<Rightarrow> gval \<Rightarrow> nat set" where
  "reach h v =
     (case v of GRef k a \<Rightarrow> (if a < length h then (edges h)\<^sup>* `` {a} else {}) | _ \<Rightarrow> {})"












section \<open>Concrete inputs used below\<close>

text \<open>Ten numbered messages.\<close>

definition numbered_Message :: "nat \<Rightarrow> Message" where
  "numbered_Message i = \<lparr>Role = ''user'', Content = digits i, Type = ''user_input''\<rparr>"

text \<open>A well-formed action object, and a reply that embeds it in prose.\<close>

definition example_action_json :: "string" where
  "example_action_json =
     ''{\"thought\":\"done\",\"action\":\"finish\",\"action_input\":{\"final_response\":\"ok\"},\"status\":\"complete\"}''"

definition example_reply_plain :: "string" where
  "example_reply_plain = ''Here is my answer: '' @ example_action_json @ '' Thanks.''"

definition example_reply_braces :: "string" where
  "example_reply_braces = example_action_json @ '' (see the set {x})''"

text \<open>
  A decoder that accepts every text and returns it, to observe which text
  \<open>parseLLMResponse\<close> hands to \<open>json.Unmarshal\<close>.
\<close>

definition echo_decoder :: "string \<Rightarrow> string + string" where
  "echo_decoder jsonStr = Inr jsonStr"

text \<open>
  Three replies of a model: one that names a registered tool but has the status
  \<open>complete\<close>, one that finishes without a \<open>final_response\<close>, and one that names a tool that
  is not registered; the actions they decode to; and a decoder that knows these three
  texts.
\<close>

definition reply_complete_tool :: "string" where
  "reply_complete_tool =
     ''{\"thought\":\"t\",\"action\":\"FileTool\",\"action_input\":{\"final_response\":\"all done\"},\"status\":\"complete\"}''"

definition reply_finish_no_payload :: "string" where
  "reply_finish_no_payload =
     ''{\"thought\":\"t\",\"action\":\"finish\",\"action_input\":{},\"status\":\"complete\"}''"

definition reply_unknown_tool :: "string" where
  "reply_unknown_tool =
     ''{\"thought\":\"t\",\"action\":\"Search\",\"action_input\":{},\"status\":\"continue\"}''"

definition action_complete_tool :: LLMResponseAction where
  "action_complete_tool =
     \<lparr>Action = ''FileTool'', ActionInput = [''final_response'' \<mapsto> JString ''all done''],
      Thought = ''t'', Status = ''complete''\<rparr>"

definition action_finish_no_payload :: LLMResponseAction where
  "action_finish_no_payload =
     \<lparr>Action = ''finish'', ActionInput = Map.empty, Thought = ''t'', Status = ''complete''\<rparr>"

definition action_unknown_tool :: LLMResponseAction where
  "action_unknown_tool =
     \<lparr>Action = ''Search'', ActionInput = Map.empty, Thought = ''t'', Status = ''continue''\<rparr>"

definition ex_unmarshal :: "string \<Rightarrow> string + LLMResponseAction" where
  "ex_unmarshal jsonStr =
     (if jsonStr = reply_complete_tool then Inr action_complete_tool
      else if jsonStr = reply_finish_no_payload then Inr action_finish_no_payload
      else if jsonStr = reply_unknown_tool then Inr action_unknown_tool
      else Inl ''unexpected end of JSON input'')"

definition ex_lib :: golib where
  "ex_lib = \<lparr>json_Unmarshal = ex_unmarshal, json_Indent = (\<lambda>s. Inr s), fmt_v = (\<lambda>m. ''map[]'')\<rparr>"

text \<open>
  A world in which the model always gives the same reply, no job has finished, and tools
  run to an end; an agent with two tools and a budget of two iterations; the same agent
  with one background job tracked; and that one with a budget of a single iteration.
\<close>

definition ex_world :: "string \<Rightarrow> world" where
  "ex_world reply =
     \<lparr>jobsOrder = [''job-1''],
      jobPoll = (\<lambda>jobID. NotReady),
      llmReply = (\<lambda>llmMsgs. Inr reply),
      toolsOrder = [''TaskDelegator'', ''FileTool''],
      toolExec = (\<lambda>tool args. ExecResult ''ok''),
      newJobID = ''job-2''\<rparr>"

definition file_tool :: Tool where
  "file_tool = \<lparr>Name = ''FileTool'', Description = ''reads and writes files'', Parameters = ''{}''\<rparr>"

definition delegator_tool :: Tool where
  "delegator_tool =
     \<lparr>Name = ''TaskDelegator'', Description = ''delegates a task'', Parameters = ''{}''\<rparr>"

definition ex_agent :: Agent where
  "ex_agent = NewAgent ''manager'' [WithTools [file_tool, delegator_tool], WithMaxIterations 2]"

definition ex_job :: Job where
  "ex_job = \<lparr>ID = ''job-1'', ToolName = ''FileTool'', ToolInput = Map.empty\<rparr>"

definition ex_agent_busy :: Agent where
  "ex_agent_busy = ex_agent\<lparr>backgroundJobs := [''job-1'' \<mapsto> ex_job]\<rparr>"

definition ex_agent_last :: Agent where
  "ex_agent_last = ex_agent_busy\<lparr>maxIterations := 1\<rparr>"

definition ex_state :: "Agent \<Rightarrow> run_state" where
  "ex_state a = \<lparr>agent = a, isWaitingForJobs = False, iterationCount = 0\<rparr>"











text \<open>
  Three tasks given to the parallel delegator; the child run of the second fails, the
  other two return.
\<close>

definition three_tasks :: "string \<rightharpoonup> jsonv" where
  "three_tasks = [''tasks'' \<mapsto> JArray [JString ''T1'', JString ''T2'', JString ''T3'']]"

definition second_fails :: "nat \<Rightarrow> string \<Rightarrow> child_outcome" where
  "second_fails i taskDesc =
     (if taskDesc = ''T2'' then RunFailed ''model unavailable''
      else RunReturned (''done '' @ taskDesc))"

section \<open>Properties of the history strategies\<close>

lemma go_copy_fresh: "go_copy (make_slice z (length xs)) xs = xs"
  by (simp add: go_copy_def make_slice_def)

lemma NoOpStrategy_Apply_id: "NoOpStrategy_Apply msgs = msgs"
  by (simp add: NoOpStrategy_Apply_def go_copy_fresh)

text \<open>
  C6.  With \<open>1 \<le> N < L\<close> on a sequence of length \<open>L\<close>, \<open>KeepLastN.Apply\<close> returns exactly the
  last \<open>N\<close> messages in their original order: the result has length \<open>N\<close>, it is the input
  without its first \<open>L - N\<close> messages, and its \<open>i\<close>-th message is the input's message at
  position \<open>L - N + i\<close>.  With \<open>N \<ge> L\<close> the result is the full sequence unchanged.
\<close>

theorem KeepLastN_Apply_bound:
  "(1 \<le> N \<and> N < int (length msgs) \<longrightarrow>
      KeepLastN_Apply N msgs = drop (length msgs - nat N) msgs \<and>
      length (KeepLastN_Apply N msgs) = nat N \<and>
      (\<forall>i < nat N. KeepLastN_Apply N msgs ! i = msgs ! (length msgs - nat N + i))) \<and>
   (N \<ge> int (length msgs) \<longrightarrow> KeepLastN_Apply N msgs = msgs)"
proof (intro conjI impI)
  assume h: "1 \<le> N \<and> N < int (length msgs)"
  then have st: "nat (int (length msgs) - N) = length msgs - nat N"
    by linarith
  from h show eq: "KeepLastN_Apply N msgs = drop (length msgs - nat N) msgs"
    by (simp add: KeepLastN_Apply_def Let_def go_copy_fresh st)
  from h show "length (KeepLastN_Apply N msgs) = nat N"
    unfolding eq by simp linarith
  from h show "\<forall>i < nat N. KeepLastN_Apply N msgs ! i = msgs ! (length msgs - nat N + i)"
    unfolding eq by simp
next
  assume "N \<ge> int (length msgs)"
  then show "KeepLastN_Apply N msgs = msgs"
    by (simp add: KeepLastN_Apply_def Let_def go_copy_fresh)
qed

text \<open>
  C6 on the example of the specification: \<open>N = 3\<close> on a sequence of ten messages returns the last three, and
  \<open>N = 10\<close> returns all ten.
\<close>

theorem KeepLastN_Apply_bound_witness:
  "KeepLastN_Apply 3 (map numbered_Message [0..<10]) = map numbered_Message [7..<10] \<and>
   length (KeepLastN_Apply 3 (map numbered_Message [0..<10])) = 3 \<and>
   KeepLastN_Apply 3 (map numbered_Message [0..<10]) ! 0 = numbered_Message 7 \<and>
   KeepLastN_Apply 10 (map numbered_Message [0..<10]) = map numbered_Message [0..<10]"
proof -
  let ?ms = "map numbered_Message [0..<10]"
  have len: "length ?ms = 10" by simp
  have a: "(1::int) \<le> 3 \<and> 3 < int (length ?ms)" by simp
  have b: "(10::int) \<ge> int (length ?ms)" by simp
  note k3 = KeepLastN_Apply_bound [of 3 ?ms, THEN conjunct1, rule_format, OF a]
  note k10 = KeepLastN_Apply_bound [of 10 ?ms, THEN conjunct2, rule_format, OF b]
  have d: "drop (length ?ms - nat 3) ?ms = map numbered_Message [7..<10]"
    by (simp add: drop_map)
  have "KeepLastN_Apply 3 ?ms = map numbered_Message [7..<10]"
    using k3 d by simp
  moreover have "length (KeepLastN_Apply 3 ?ms) = 3"
    using k3 by simp
  moreover have "KeepLastN_Apply 3 ?ms ! 0 = numbered_Message 7"
    using k3 by simp
  ultimately show ?thesis using k10 by simp
qed

section \<open>Properties of the action codec\<close>

lemma strings_Index_first:
  "c \<notin> set pre \<Longrightarrow> strings_Index (pre @ c # rest) c = int (length pre)"
  by (induction pre) (auto simp: Let_def)

lemma strings_Index_none: "c \<notin> set s \<Longrightarrow> strings_Index s c = -1"
  by (induction s) (auto simp: Let_def)

lemma strings_LastIndex_none: "c \<notin> set s \<Longrightarrow> strings_LastIndex s c = -1"
  by (induction s) (auto simp: Let_def)

lemma strings_LastIndex_ge: "strings_LastIndex s c \<ge> -1"
  by (induction s) (auto simp: Let_def)

lemma strings_LastIndex_last:
  "c \<notin> set post \<Longrightarrow> strings_LastIndex (xs @ c # post) c = int (length xs)"
proof (induction xs)
  case Nil
  then show ?case by (simp add: Let_def strings_LastIndex_none)
next
  case (Cons x xs)
  then show ?case by (simp add: Let_def)
qed

text \<open>
  C1 (as amended).  Let a reply be \<open>pre @ J @ post\<close>, where \<open>J\<close> is a text that starts with an
  opening brace and ends with a closing brace (such as a well-formed action object), the
  leading prose \<open>pre\<close> has no opening brace and the trailing prose \<open>post\<close> has no closing
  brace.  Then \<open>parseLLMResponse\<close> hands exactly \<open>J\<close> to the JSON decoder and returns what it
  decodes (or its error, wrapped).  The span the code extracts runs from the first opening
  brace to the last closing brace of the reply.
\<close>

theorem parseLLMResponse_embedded:
  assumes "CHR ''{'' \<notin> set pre" and "CHR ''}'' \<notin> set post"
  shows "parseLLMResponse unmarshal (pre @ CHR ''{'' # body @ CHR ''}'' # post) =
           (case unmarshal (CHR ''{'' # body @ [CHR ''}'']) of
              Inl err \<Rightarrow> Inl (errJSONDecode err)
            | Inr parsedResponse \<Rightarrow> Inr parsedResponse)"
proof -
  let ?text = "pre @ CHR ''{'' # body @ CHR ''}'' # post"
  have s: "strings_Index ?text (CHR ''{'') = int (length pre)"
    using assms(1) by (rule strings_Index_first)
  have "strings_LastIndex ((pre @ CHR ''{'' # body) @ CHR ''}'' # post) (CHR ''}'') =
          int (length (pre @ CHR ''{'' # body))"
    using assms(2) by (rule strings_LastIndex_last)
  then have e: "strings_LastIndex ?text (CHR ''}'') = int (length pre) + 1 + int (length body)"
    by simp
  have sl: "go_slice ?text (length pre) (length pre + length body + 2) =
              CHR ''{'' # body @ [CHR ''}'']"
    by (simp add: go_slice_def)
  have n: "nat (int (length pre) + 1 + int (length body) + 1) = length pre + length body + 2"
    by linarith
  have "go_slice ?text (nat (int (length pre)))
          (nat (int (length pre) + 1 + int (length body) + 1)) = CHR ''{'' # body @ [CHR ''}'']"
    unfolding n using sl by simp
  then show ?thesis
    unfolding parseLLMResponse_def s e Let_def
    by simp
qed

text \<open>
  C1 (as amended) on the reply \<open>Here is my answer: {...} Thanks.\<close>: the decoder is handed
  the action object alone.
\<close>

theorem parseLLMResponse_embedded_witness:
  "CHR ''{'' \<notin> set ''Here is my answer: '' \<and> CHR ''}'' \<notin> set '' Thanks.'' \<and>
   parseLLMResponse echo_decoder example_reply_plain = Inr example_action_json"
proof -
  have a: "CHR ''{'' \<notin> set ''Here is my answer: ''" by simp
  have b: "CHR ''}'' \<notin> set '' Thanks.''" by simp
  define body where "body = butlast (tl example_action_json)"
  have body: "example_action_json = CHR ''{'' # body @ [CHR ''}'']"
    unfolding body_def example_action_json_def by simp
  have "parseLLMResponse echo_decoder (''Here is my answer: '' @ CHR ''{'' # body @ CHR ''}'' # '' Thanks.'') =
          (case echo_decoder (CHR ''{'' # body @ [CHR ''}'']) of
             Inl err \<Rightarrow> Inl (errJSONDecode err)
           | Inr parsedResponse \<Rightarrow> Inr parsedResponse)"
    using a b by (rule parseLLMResponse_embedded)
  then have "parseLLMResponse echo_decoder example_reply_plain = Inr example_action_json"
    by (simp add: example_reply_plain_def body echo_decoder_def)
  with a b show ?thesis by simp
qed

text \<open>
  C1 as stated fails.  The reply below is a well-formed action object followed by prose
  that contains braces.  Its first balanced span is the action object, but the code hands
  the decoder everything up to the last closing brace of the prose.
\<close>

theorem parseLLMResponse_balanced_counterexample:
  "spec_first_balanced_span example_reply_braces = Some example_action_json \<and>
   parseLLMResponse echo_decoder example_reply_braces =
     Inr (example_action_json @ '' (see the set {x}'') \<and>
   parseLLMResponse echo_decoder example_reply_braces \<noteq> Inr example_action_json"
  unfolding example_reply_braces_def example_action_json_def parseLLMResponse_def
    echo_decoder_def go_slice_def
  by code_simp

section \<open>Properties of the agent loop\<close>

text \<open>
  C7.  The history strategy a new agent has by default is \<open>NoOpStrategy\<close>, and applying it
  twice to a message sequence gives what applying it once gives.
\<close>

theorem default_strategy_idempotent:
  "historyStrategy (NewAgent nm []) = NoOpStrategy \<and>
   Apply (historyStrategy (NewAgent nm [])) (Apply (historyStrategy (NewAgent nm [])) m) =
     Apply (historyStrategy (NewAgent nm [])) m"
  by (simp add: NewAgent_def NoOpStrategy_Apply_id)

subsection \<open>Ranging over a map\<close>

lemma entries_keys: "fst ` set (entries ks m) = set ks \<inter> dom m"
  by (induction ks) (auto split: option.splits)

lemma entries_key_in: "(k, v) \<in> set (entries ks m) \<Longrightarrow> k \<in> set ks"
  using entries_keys [of ks m] by (metis IntD1 fst_conv imageI)

lemma entries_distinct: "distinct ks \<Longrightarrow> distinct (map fst (entries ks m))"
  by (induction ks) (auto dest: entries_key_in split: option.splits)


lemma entries_empty [simp]: "entries ks Map.empty = []"
  by (induction ks) auto

lemma go_range_keys: "set (map fst (go_range order m)) = set order \<inter> dom m"
  by (simp add: go_range_def entries_keys)

lemma go_range_distinct: "distinct (map fst (go_range order m))"
  by (simp add: go_range_def entries_distinct)

lemma go_range_empty [simp]: "go_range order Map.empty = []"
  by (simp add: go_range_def)

lemma checkAndInject_no_jobs:
  "backgroundJobs a = Map.empty \<Longrightarrow> checkAndInjectBackgroundJobs lib w a = (a, False)"
  by (simp add: checkAndInjectBackgroundJobs_def)

subsection \<open>Acting on a parsed action\<close>

lemma handle_action_finish:
  assumes "signals_completion action" and "backgroundJobs (agent st) = Map.empty"
  shows "handle_action lib w st action =
           Return (agent st) (string_or_zero (ActionInput action ''final_response'')) None"
  using assms by (simp add: handle_action_def Let_def)

lemma handle_action_finish_pending:
  assumes "signals_completion action" and "backgroundJobs (agent st) \<noteq> Map.empty"
  shows "handle_action lib w st action =
           Continue (st\<lparr>agent := addMessage (agent st) ''user'' note_finish_pending ''system_note'',
                        isWaitingForJobs := True\<rparr>)"
  using assms by (simp add: handle_action_def Let_def)

lemma handle_action_Return:
  assumes "handle_action lib w st action = Return a text err"
  shows "a = agent st \<and> backgroundJobs a = Map.empty \<and> err = None \<and> signals_completion action \<and>
         text = string_or_zero (ActionInput action ''final_response'')"
  using assms
  by (auto simp: handle_action_def Let_def split: if_splits option.splits)

lemma backgroundJobs_addMessage [simp]:
  "backgroundJobs (addMessage a r c t) = backgroundJobs a"
  by (simp add: addMessage_def)

lemma maxIterations_addMessage [simp]:
  "maxIterations (addMessage a r c t) = maxIterations a"
  by (simp add: addMessage_def)

lemma tools_addMessage [simp]: "tools (addMessage a r c t) = tools a"
  by (simp add: addMessage_def)

lemma inject_jobs_maxIterations:
  "maxIterations (fst (inject_jobs lib w js (a, b))) = maxIterations a"
  by (induction js arbitrary: a b) (auto simp: Let_def split: poll.splits)

lemma checkAndInject_maxIterations:
  "checkAndInjectBackgroundJobs lib w a = (a1, injected) \<Longrightarrow> maxIterations a1 = maxIterations a"
  using inject_jobs_maxIterations [of lib w "go_range (jobsOrder w) (backgroundJobs a)" a False]
  by (simp add: checkAndInjectBackgroundJobs_def)

lemma loop_body_Return:
  assumes "loop_body lib w st = Return a text None"
  shows "backgroundJobs a = Map.empty"
proof -
  obtain a1 injected where p: "checkAndInjectBackgroundJobs lib w (agent st) = (a1, injected)"
    by (cases "checkAndInjectBackgroundJobs lib w (agent st)")
  show ?thesis
    using assms
    by (auto simp: loop_body_def p Let_def
        split: if_splits sum.splits dest!: handle_action_Return)
qed

lemmas run_loop_induct = run_loop.raw_induct [rotated 1, consumes 1]

lemma run_loop_response_aux:
  "run_loop lib W t st = Some out \<Longrightarrow>
   failure out = None \<longrightarrow> response out \<noteq> fallback_text \<longrightarrow>
   backgroundJobs (agentAfter out) = Map.empty"
proof (induction rule: run_loop_induct)
  case (1 run_loop' lib W t st out)
  show ?case
  proof (cases "iterationCount st < maxIterations (agent st)")
    case False
    with 1(2) show ?thesis by auto
  next
    case True
    show ?thesis
    proof (cases "loop_body lib (W t) st")
      case (Continue st')
      with True 1 show ?thesis by auto
    next
      case (Return a res err)
      with True 1(2) have "out = \<lparr>agentAfter = a, passes = Suc t, response = res, failure = err\<rparr>"
        by auto
      with Return show ?thesis by (auto dest: loop_body_Return)
    qed
  qed
qed

lemma loop_body_Return_jobs:
  assumes "loop_body lib w st = Return a res err"
  shows "backgroundJobs a = backgroundJobs (fst (checkAndInjectBackgroundJobs lib w (agent st)))"
proof -
  obtain a1 injected where p: "checkAndInjectBackgroundJobs lib w (agent st) = (a1, injected)"
    by (cases "checkAndInjectBackgroundJobs lib w (agent st)")
  show ?thesis
    using assms
    by (auto simp: loop_body_def p Let_def
        split: if_splits sum.splits dest!: handle_action_Return)
qed

text \<open>A pass that starts with no job tracked and not waiting: the model is called and its
  reply acted on.\<close>

lemma loop_body_idle:
  assumes "backgroundJobs (agent st) = Map.empty" and "\<not> isWaitingForJobs st"
    and "llmReply w (llmMsgs_of (agent st)) = Inr content"
  shows "loop_body lib w st =
           (case parseLLMResponse (json_Unmarshal lib) content of
              Inl err \<Rightarrow>
                Continue \<lparr>agent = addMessage (addMessage (agent st) ''assistant'' content ''llm_output'')
                                    ''user'' (msg_parse_error err) ''parse_error'',
                          isWaitingForJobs = False, iterationCount = iterationCount st + 1\<rparr>
            | Inr action \<Rightarrow>
                handle_action lib w
                  \<lparr>agent = addMessage (agent st) ''assistant'' content ''llm_output'',
                   isWaitingForJobs = False, iterationCount = iterationCount st + 1\<rparr> action)"
  using assms
  by (simp add: loop_body_def checkAndInject_no_jobs Let_def)

text \<open>A pass whose poll leaves a job tracked and that is not waiting.\<close>

lemma loop_body_busy:
  assumes "checkAndInjectBackgroundJobs lib w (agent st) = (a1, injected)"
    and "injected \<or> \<not> isWaitingForJobs st"
    and "llmReply w (llmMsgs_of a1) = Inr content"
    and "parseLLMResponse (json_Unmarshal lib) content = Inr action"
  shows "loop_body lib w st =
           handle_action lib w
             \<lparr>agent = addMessage a1 ''assistant'' content ''llm_output'',
              isWaitingForJobs = False, iterationCount = iterationCount st + 1\<rparr> action"
  using assms
  by (auto simp: loop_body_def Let_def)

lemma run_loop_finish:
  assumes "signals_completion action"
    and "backgroundJobs (agent st) = Map.empty" and "\<not> isWaitingForJobs st"
    and "iterationCount st < maxIterations (agent st)"
    and "llmReply (W t) (llmMsgs_of (agent st)) = Inr content"
    and "parseLLMResponse (json_Unmarshal lib) content = Inr action"
  shows "run_loop lib W t st =
           Some \<lparr>agentAfter = addMessage (agent st) ''assistant'' content ''llm_output'',
                 passes = Suc t,
                 response = string_or_zero (ActionInput action ''final_response''),
                 failure = None\<rparr>"
proof -
  have "loop_body lib (W t) st =
          Return (addMessage (agent st) ''assistant'' content ''llm_output'')
            (string_or_zero (ActionInput action ''final_response'')) None"
    using assms by (simp add: loop_body_idle handle_action_finish)
  then show ?thesis
    using assms(4) by (subst run_loop.simps) simp
qed

text \<open>
  A pass that gets a completion signal from the model while a job is still tracked after
  its poll: the reply and the note are appended, the pass counts as an iteration, and the
  loop is left in the waiting state.
\<close>

lemma loop_body_finish_pending:
  assumes "checkAndInjectBackgroundJobs lib w (agent st) = (a1, injected)"
    and "backgroundJobs a1 \<noteq> Map.empty" and "injected \<or> \<not> isWaitingForJobs st"
    and "llmReply w (llmMsgs_of a1) = Inr content"
    and "parseLLMResponse (json_Unmarshal lib) content = Inr action"
    and "signals_completion action"
  shows "loop_body lib w st =
           Continue \<lparr>agent = a1\<lparr>messages := messages a1 @
                   [\<lparr>Role = ''assistant'', Content = content, Type = ''llm_output''\<rparr>,
                    \<lparr>Role = ''user'', Content = note_finish_pending, Type = ''system_note''\<rparr>]\<rparr>,
                 isWaitingForJobs = True, iterationCount = iterationCount st + 1\<rparr>"
proof -
  have "loop_body lib w st =
      handle_action lib w
        \<lparr>agent = addMessage a1 ''assistant'' content ''llm_output'',
         isWaitingForJobs = False, iterationCount = iterationCount st + 1\<rparr> action"
    using assms(1,3,4,5) by (rule loop_body_busy)
  then show ?thesis
    using assms(2,6) by (simp add: handle_action_finish_pending) (simp add: addMessage_def)
qed

text \<open>
  What \<open>Run\<close>'s loop does after such a pass depends on the budget: the loop condition is
  tested again with the counter already raised.  With an iteration left, the loop goes on
  from the waiting state; with none left, it ends and \<open>Run\<close> returns the fallback text.
\<close>

lemma run_loop_finish_pending:
  assumes "checkAndInjectBackgroundJobs lib (W t) (agent st) = (a1, injected)"
    and "backgroundJobs a1 \<noteq> Map.empty" and "injected \<or> \<not> isWaitingForJobs st"
    and "llmReply (W t) (llmMsgs_of a1) = Inr content"
    and "parseLLMResponse (json_Unmarshal lib) content = Inr action"
    and "signals_completion action"
    and "iterationCount st < maxIterations (agent st)"
  shows "run_loop lib W t st =
           (if iterationCount st + 1 < maxIterations (agent st) then
              run_loop lib W (Suc t)
                \<lparr>agent = a1\<lparr>messages := messages a1 @
                   [\<lparr>Role = ''assistant'', Content = content, Type = ''llm_output''\<rparr>,
                    \<lparr>Role = ''user'', Content = note_finish_pending, Type = ''system_note''\<rparr>]\<rparr>,
                 isWaitingForJobs = True, iterationCount = iterationCount st + 1\<rparr>
            else
              Some \<lparr>agentAfter = a1\<lparr>messages := messages a1 @
                      [\<lparr>Role = ''assistant'', Content = content, Type = ''llm_output''\<rparr>,
                       \<lparr>Role = ''user'', Content = note_finish_pending, Type = ''system_note''\<rparr>]\<rparr>,
                    passes = Suc t, response = fallback_text, failure = None\<rparr>)"
proof -
  let ?s = "\<lparr>agent = a1\<lparr>messages := messages a1 @
                   [\<lparr>Role = ''assistant'', Content = content, Type = ''llm_output''\<rparr>,
                    \<lparr>Role = ''user'', Content = note_finish_pending, Type = ''system_note''\<rparr>]\<rparr>,
                 isWaitingForJobs = True, iterationCount = iterationCount st + 1\<rparr>"
  have m: "maxIterations a1 = maxIterations (agent st)"
    using assms(1) by (rule checkAndInject_maxIterations)
  have pass: "loop_body lib (W t) st = Continue ?s"
    using assms(1-6) by (rule loop_body_finish_pending)
  have go: "run_loop lib W t st = run_loop lib W (Suc t) ?s"
    using assms(7) pass by (subst run_loop.simps) simp
  show ?thesis
  proof (cases "iterationCount st + 1 < maxIterations (agent st)")
    case True
    with go show ?thesis by simp
  next
    case False
    then have "run_loop lib W (Suc t) ?s =
        Some \<lparr>agentAfter = agent ?s, passes = Suc t, response = fallback_text, failure = None\<rparr>"
      using m by (subst run_loop.simps) simp
    with go False show ?thesis by simp
  qed
qed

text \<open>A pass in the waiting state whose poll finds no job finished and a job tracked.\<close>

lemma loop_body_waiting:
  assumes "isWaitingForJobs st"
    and "checkAndInjectBackgroundJobs lib w (agent st) = (a1, False)"
    and "backgroundJobs a1 \<noteq> Map.empty"
  shows "loop_body lib w st =
           Continue \<lparr>agent = a1, isWaitingForJobs = True, iterationCount = iterationCount st\<rparr>"
  using assms by (simp add: loop_body_def)

text \<open>
  C2, as the code has it.  While a background job is tracked, an action that signals
  completion does not make \<open>Run\<close> return a final response: the loop appends the note to the
  messages and sets the waiting state, with everything else as it was.  This holds for
  the action taken alone and for the whole pass (the job still tracked after the poll at
  the start of the pass), which counts as an iteration.  What follows depends on the
  iteration budget.  If an iteration is left, the loop goes on from the waiting state,
  where a pass that finds a job tracked and none finished changes nothing and counts as
  no iteration.  If the pass was the last one of the budget, the loop ends there and \<open>Run\<close>
  returns the fallback text with a \<open>nil\<close> error, the job still tracked.  A pass does not
  return a response while a job is tracked after its poll, and when \<open>Run\<close>'s loop returns
  a response that is not the fallback text, no job is tracked any more.
\<close>

theorem finish_with_pending_jobs:
  "(signals_completion action \<and> backgroundJobs (agent st) \<noteq> Map.empty \<longrightarrow>
      handle_action lib w st action =
        Continue (st\<lparr>agent := (agent st)\<lparr>messages := messages (agent st) @
                     [\<lparr>Role = ''user'', Content = note_finish_pending, Type = ''system_note''\<rparr>]\<rparr>,
                     isWaitingForJobs := True\<rparr>)) \<and>
   (checkAndInjectBackgroundJobs lib w (agent st) = (a1, injected) \<and>
    backgroundJobs a1 \<noteq> Map.empty \<and> (injected \<or> \<not> isWaitingForJobs st) \<and>
    llmReply w (llmMsgs_of a1) = Inr content \<and>
    parseLLMResponse (json_Unmarshal lib) content = Inr action \<and>
    signals_completion action \<longrightarrow>
      loop_body lib w st =
        Continue \<lparr>agent = a1\<lparr>messages := messages a1 @
                   [\<lparr>Role = ''assistant'', Content = content, Type = ''llm_output''\<rparr>,
                    \<lparr>Role = ''user'', Content = note_finish_pending, Type = ''system_note''\<rparr>]\<rparr>,
                 isWaitingForJobs = True, iterationCount = iterationCount st + 1\<rparr>) \<and>
   (checkAndInjectBackgroundJobs lib (W t) (agent st) = (a1, injected) \<and>
    backgroundJobs a1 \<noteq> Map.empty \<and> (injected \<or> \<not> isWaitingForJobs st) \<and>
    llmReply (W t) (llmMsgs_of a1) = Inr content \<and>
    parseLLMResponse (json_Unmarshal lib) content = Inr action \<and>
    signals_completion action \<and>
    iterationCount st < maxIterations (agent st) \<longrightarrow>
      run_loop lib W t st =
        (if iterationCount st + 1 < maxIterations (agent st) then
           run_loop lib W (Suc t)
             \<lparr>agent = a1\<lparr>messages := messages a1 @
                   [\<lparr>Role = ''assistant'', Content = content, Type = ''llm_output''\<rparr>,
                    \<lparr>Role = ''user'', Content = note_finish_pending, Type = ''system_note''\<rparr>]\<rparr>,
                 isWaitingForJobs = True, iterationCount = iterationCount st + 1\<rparr>
         else
           Some \<lparr>agentAfter = a1\<lparr>messages := messages a1 @
                   [\<lparr>Role = ''assistant'', Content = content, Type = ''llm_output''\<rparr>,
                    \<lparr>Role = ''user'', Content = note_finish_pending, Type = ''system_note''\<rparr>]\<rparr>,
                 passes = Suc t, response = fallback_text, failure = None\<rparr>)) \<and>
   (isWaitingForJobs st \<and> checkAndInjectBackgroundJobs lib w (agent st) = (a1, False) \<and>
    backgroundJobs a1 \<noteq> Map.empty \<longrightarrow>
      loop_body lib w st =
        Continue \<lparr>agent = a1, isWaitingForJobs = True, iterationCount = iterationCount st\<rparr>) \<and>
   (backgroundJobs (fst (checkAndInjectBackgroundJobs lib w (agent st))) \<noteq> Map.empty \<longrightarrow>
      (\<forall>a res. loop_body lib w st \<noteq> Return a res None)) \<and>
   (run_loop lib W t st = Some out \<and> failure out = None \<and> response out \<noteq> fallback_text \<longrightarrow>
      backgroundJobs (agentAfter out) = Map.empty)"
proof (intro conjI impI)
  assume "signals_completion action \<and> backgroundJobs (agent st) \<noteq> Map.empty"
  then show "handle_action lib w st action =
      Continue (st\<lparr>agent := (agent st)\<lparr>messages := messages (agent st) @
                   [\<lparr>Role = ''user'', Content = note_finish_pending, Type = ''system_note''\<rparr>]\<rparr>,
                   isWaitingForJobs := True\<rparr>)"
    by (simp add: handle_action_finish_pending) (simp add: addMessage_def)
next
  assume "checkAndInjectBackgroundJobs lib w (agent st) = (a1, injected) \<and>
    backgroundJobs a1 \<noteq> Map.empty \<and> (injected \<or> \<not> isWaitingForJobs st) \<and>
    llmReply w (llmMsgs_of a1) = Inr content \<and>
    parseLLMResponse (json_Unmarshal lib) content = Inr action \<and>
    signals_completion action"
  then show "loop_body lib w st =
      Continue \<lparr>agent = a1\<lparr>messages := messages a1 @
                   [\<lparr>Role = ''assistant'', Content = content, Type = ''llm_output''\<rparr>,
                    \<lparr>Role = ''user'', Content = note_finish_pending, Type = ''system_note''\<rparr>]\<rparr>,
                 isWaitingForJobs = True, iterationCount = iterationCount st + 1\<rparr>"
    by (intro loop_body_finish_pending) auto
next
  assume "checkAndInjectBackgroundJobs lib (W t) (agent st) = (a1, injected) \<and>
    backgroundJobs a1 \<noteq> Map.empty \<and> (injected \<or> \<not> isWaitingForJobs st) \<and>
    llmReply (W t) (llmMsgs_of a1) = Inr content \<and>
    parseLLMResponse (json_Unmarshal lib) content = Inr action \<and>
    signals_completion action \<and>
    iterationCount st < maxIterations (agent st)"
  then show "run_loop lib W t st =
      (if iterationCount st + 1 < maxIterations (agent st) then
         run_loop lib W (Suc t)
           \<lparr>agent = a1\<lparr>messages := messages a1 @
                   [\<lparr>Role = ''assistant'', Content = content, Type = ''llm_output''\<rparr>,
                    \<lparr>Role = ''user'', Content = note_finish_pending, Type = ''system_note''\<rparr>]\<rparr>,
                 isWaitingForJobs = True, iterationCount = iterationCount st + 1\<rparr>
       else
         Some \<lparr>agentAfter = a1\<lparr>messages := messages a1 @
                 [\<lparr>Role = ''assistant'', Content = content, Type = ''llm_output''\<rparr>,
                  \<lparr>Role = ''user'', Content = note_finish_pending, Type = ''system_note''\<rparr>]\<rparr>,
               passes = Suc t, response = fallback_text, failure = None\<rparr>)"
    by (intro run_loop_finish_pending) auto
next
  assume "isWaitingForJobs st \<and> checkAndInjectBackgroundJobs lib w (agent st) = (a1, False) \<and>
    backgroundJobs a1 \<noteq> Map.empty"
  then show "loop_body lib w st =
      Continue \<lparr>agent = a1, isWaitingForJobs = True, iterationCount = iterationCount st\<rparr>"
    by (intro loop_body_waiting) auto
next
  assume j: "backgroundJobs (fst (checkAndInjectBackgroundJobs lib w (agent st))) \<noteq> Map.empty"
  show "\<forall>a res. loop_body lib w st \<noteq> Return a res None"
  proof (intro allI notI)
    fix a res
    assume r: "loop_body lib w st = Return a res None"
    from loop_body_Return [OF r] loop_body_Return_jobs [OF r] j show False by simp
  qed
next
  assume "run_loop lib W t st = Some out \<and> failure out = None \<and> response out \<noteq> fallback_text"
  then show "backgroundJobs (agentAfter out) = Map.empty"
    using run_loop_response_aux by blast
qed
subsection \<open>What a pass leaves unchanged, and when it counts\<close>

lemma maxIterations_startBackgroundTask [simp]:
  "maxIterations (startBackgroundTask w a tool toolName args) = maxIterations a"
  by (simp add: startBackgroundTask_def Let_def)

lemma handle_action_Continue:
  assumes "handle_action lib w st action = Continue st'"
  shows "maxIterations (agent st') = maxIterations (agent st) \<and>
         iterationCount st' = iterationCount st \<and>
         (isWaitingForJobs st' \<longrightarrow> isWaitingForJobs st \<or> backgroundJobs (agent st) \<noteq> Map.empty)"
  using assms
  by (auto simp: handle_action_def Let_def split: if_splits option.splits)

lemma loop_body_Continue:
  assumes "loop_body lib w st = Continue st'"
  shows "maxIterations (agent st') = maxIterations (agent st) \<and>
         (\<not> isWaitingForJobs st' \<longrightarrow> iterationCount st' = iterationCount st + 1)"
proof -
  obtain a1 injected where p: "checkAndInjectBackgroundJobs lib w (agent st) = (a1, injected)"
    by (cases "checkAndInjectBackgroundJobs lib w (agent st)")
  note m = checkAndInject_maxIterations [OF p]
  show ?thesis
    using assms m
    by (auto simp: loop_body_def p Let_def
        split: if_splits sum.splits dest!: handle_action_Continue)
qed

lemma loop_body_Return_cases:
  assumes "loop_body lib w st = Return a res err"
  shows "(\<exists>llmMsgs e. llmReply w llmMsgs = Inl e) \<or>
         (\<exists>llmMsgs content action. llmReply w llmMsgs = Inr content \<and>
            parseLLMResponse (json_Unmarshal lib) content = Inr action \<and>
            signals_completion action)"
proof -
  obtain a1 injected where p: "checkAndInjectBackgroundJobs lib w (agent st) = (a1, injected)"
    by (cases "checkAndInjectBackgroundJobs lib w (agent st)")
  show ?thesis
    using assms
    by (auto simp: loop_body_def p Let_def
        split: if_splits sum.splits dest!: handle_action_Return)
qed

text \<open>
  C5.  Let the iteration budget be \<open>n \<ge> 1\<close>, let the system prompt build, let the model
  answer every call with a reply that does not signal completion, and let no state the
  run goes through be a waiting state.  Then \<open>Run\<close> makes exactly \<open>n\<close> passes through its
  loop, each of which calls the model and counts as an iteration, and returns the fixed
  fallback text with a \<open>nil\<close> error.
\<close>

theorem max_iterations_fallback:
  assumes budget: "maxIterations a = n" "1 \<le> n"
    and prompt: "buildSystemPrompt lib promptOrder (systemPrompt a) (tools a) = Inr fullSystemPrompt"
    and replies: "\<forall>t < nat n. \<forall>llmMsgs. \<exists>content. llmReply (W t) llmMsgs = Inr content \<and>
                    (\<forall>action. parseLLMResponse (json_Unmarshal lib) content = Inr action \<longrightarrow>
                       \<not> signals_completion action)"
    and nowait: "\<forall>k \<le> nat n. \<forall>s. state_after lib W (initial_state a fullSystemPrompt userInput) k = Some s
                    \<longrightarrow> \<not> isWaitingForJobs s"
  shows "\<exists>final.
           Run lib promptOrder W a userInput =
             Some \<lparr>agentAfter = final, passes = nat n, response = fallback_text, failure = None\<rparr> \<and>
           state_after lib W (initial_state a fullSystemPrompt userInput) (nat n) =
             Some \<lparr>agent = final, isWaitingForJobs = False, iterationCount = n\<rparr>"
proof -
  let ?st0 = "initial_state a fullSystemPrompt userInput"
  have step: "\<exists>s. state_after lib W ?st0 k = Some s \<and> iterationCount s = int k \<and>
                  maxIterations (agent s) = n \<and> run_loop lib W 0 ?st0 = run_loop lib W k s"
    if "k \<le> nat n" for k
    using that
  proof (induction k)
    case 0
    show ?case using budget(1) by (simp add: initial_state_def Let_def)
  next
    case (Suc k)
    then obtain s where s: "state_after lib W ?st0 k = Some s" "iterationCount s = int k"
      "maxIterations (agent s) = n" "run_loop lib W 0 ?st0 = run_loop lib W k s"
      by auto
    have lt: "iterationCount s < maxIterations (agent s)"
      using s(2,3) Suc.prems by linarith
    have "k < nat n" using Suc.prems by simp
    with replies have "\<forall>llmMsgs. \<exists>content. llmReply (W k) llmMsgs = Inr content \<and>
        (\<forall>action. parseLLMResponse (json_Unmarshal lib) content = Inr action \<longrightarrow>
           \<not> signals_completion action)"
      by blast
    then have "\<nexists>a' res err. loop_body lib (W k) s = Return a' res err"
      using loop_body_Return_cases [of lib "W k" s]
      by (metis Inl_Inr_False sum.inject(2))
    then obtain s' where c: "loop_body lib (W k) s = Continue s'"
      by (cases "loop_body lib (W k) s") auto
    have sa: "state_after lib W ?st0 (Suc k) = Some s'"
      using s(1) c by simp
    have nw: "\<not> isWaitingForJobs s'"
      using nowait sa Suc.prems by blast
    have "run_loop lib W k s = run_loop lib W (Suc k) s'"
      using lt c by (subst run_loop.simps) simp
    with s(4) have "run_loop lib W 0 ?st0 = run_loop lib W (Suc k) s'"
      by simp
    moreover have "iterationCount s' = int (Suc k)"
      using loop_body_Continue [OF c] nw s(2) by simp
    moreover have "maxIterations (agent s') = n"
      using loop_body_Continue [OF c] s(3) by simp
    ultimately show ?case using sa by auto
  qed
  from step [of "nat n"] obtain s where s: "state_after lib W ?st0 (nat n) = Some s"
    "iterationCount s = int (nat n)" "maxIterations (agent s) = n"
    "run_loop lib W 0 ?st0 = run_loop lib W (nat n) s"
    by auto
  have cnt: "iterationCount s = n" using s(2) budget(2) by simp
  have nw: "\<not> isWaitingForJobs s" using nowait s(1) by blast
  have "run_loop lib W (nat n) s =
          Some \<lparr>agentAfter = agent s, passes = nat n, response = fallback_text, failure = None\<rparr>"
    using cnt s(3) by (subst run_loop.simps) simp
  then have "Run lib promptOrder W a userInput =
          Some \<lparr>agentAfter = agent s, passes = nat n, response = fallback_text, failure = None\<rparr>"
    using s(4) prompt by (simp add: Run_def)
  moreover have "s = \<lparr>agent = agent s, isWaitingForJobs = False, iterationCount = n\<rparr>"
    using cnt nw by simp
  ultimately show ?thesis using s(1) by metis
qed

subsection \<open>Completion, and unknown tools\<close>


lemma getToolNames_set:
  "dom (tools a) \<subseteq> set (toolsOrder w) \<Longrightarrow> set (getToolNames w a) = dom (tools a)"
  using go_range_keys [of "toolsOrder w" "tools a"] by (auto simp: getToolNames_def)

lemma getToolNames_distinct: "distinct (getToolNames w a)"
  by (simp add: getToolNames_def go_range_distinct)

lemma handle_action_unknown:
  assumes "\<not> signals_completion action" and "Action action \<noteq> ''wait''"
    and "tools (agent st) (Action action) = None"
  shows "handle_action lib w st action =
           Continue (st\<lparr>agent := addMessage (agent st) ''user''
             (msg_unknown_tool (Action action) (strings_Join (getToolNames w (agent st)) '', ''))
             ''tool_error''\<rparr>)"
  using assms by (simp add: handle_action_def Let_def)

lemma getToolNames_addMessage [simp]:
  "getToolNames w (addMessage a r c t) = getToolNames w a"
  by (simp add: getToolNames_def)

lemma strings_Join_concat:
  "strings_Join xs sep = (case xs of [] \<Rightarrow> [] | n # ns \<Rightarrow> n @ concat (map (\<lambda>m. sep @ m) ns))"
  by (induction xs sep rule: strings_Join.induct) simp_all

text \<open>
  C8.  An action that is no completion signal, is not \<open>wait\<close> and names no registered tool
  makes the loop go on with one more message and nothing else changed: a \<open>tool_error\<close>
  message of the user role, appended to the messages, whose text is "error: tool '",
  the name the action gave, "' does not exist. Available tools: " (in the source's
  Chinese wording) and the names from \<open>getToolNames\<close>, separated by a comma and a space.
  These names are exactly the registered ones, each once (the order is the one in which
  \<open>range\<close> visits the tool map).  A pass of the loop that gets such an action from the
  model (with no job tracked and not waiting) ends with the model's reply and this
  message appended and one iteration counted, and does not return.
\<close>

theorem unknown_tool_reported:
  assumes "\<not> (Status action = ''complete'' \<or> (Action action = ''finish'' \<and> Status action \<noteq> ''continue''))"
    and "Action action \<noteq> ''wait''"
    and "tools (agent st) (Action action) = None"
    and "dom (tools (agent st)) \<subseteq> set (toolsOrder w)"
  shows "handle_action lib w st action =
           Continue (st\<lparr>agent := (agent st)\<lparr>messages := messages (agent st) @
             [\<lparr>Role = ''user'',
               Content =
                 [CHR 0xE9, CHR 0x94, CHR 0x99, CHR 0xE8, CHR 0xAF, CHR 0xAF] @ '': '' @
                 [CHR 0xE5, CHR 0xB7, CHR 0xA5, CHR 0xE5, CHR 0x85, CHR 0xB7] @ '' '' @ [CHR 0x27] @
                 Action action @
                 [CHR 0x27] @ '' '' @ [CHR 0xE4, CHR 0xB8, CHR 0x8D, CHR 0xE5, CHR 0xAD, CHR 0x98,
                 CHR 0xE5, CHR 0x9C, CHR 0xA8, CHR 0xE3, CHR 0x80, CHR 0x82, CHR 0xE5, CHR 0x8F,
                 CHR 0xAF, CHR 0xE7, CHR 0x94, CHR 0xA8, CHR 0xE5, CHR 0xB7, CHR 0xA5, CHR 0xE5,
                 CHR 0x85, CHR 0xB7] @ '': '' @
                 (case getToolNames w (agent st) of
                    [] \<Rightarrow> []
                  | n # ns \<Rightarrow> n @ concat (map (\<lambda>m. '', '' @ m) ns)),
               Type = ''tool_error''\<rparr>]\<rparr>\<rparr>) \<and>
         set (getToolNames w (agent st)) = dom (tools (agent st)) \<and>
         distinct (getToolNames w (agent st)) \<and>
         (backgroundJobs (agent st) = Map.empty \<and> \<not> isWaitingForJobs st \<and>
          llmReply w (llmMsgs_of (agent st)) = Inr content \<and>
          parseLLMResponse (json_Unmarshal lib) content = Inr action \<longrightarrow>
            loop_body lib w st =
              Continue \<lparr>agent = (agent st)\<lparr>messages := messages (agent st) @
                          [\<lparr>Role = ''assistant'', Content = content, Type = ''llm_output''\<rparr>,
                           \<lparr>Role = ''user'',
                            Content =
                 [CHR 0xE9, CHR 0x94, CHR 0x99, CHR 0xE8, CHR 0xAF, CHR 0xAF] @ '': '' @
                 [CHR 0xE5, CHR 0xB7, CHR 0xA5, CHR 0xE5, CHR 0x85, CHR 0xB7] @ '' '' @ [CHR 0x27] @
                 Action action @
                 [CHR 0x27] @ '' '' @ [CHR 0xE4, CHR 0xB8, CHR 0x8D, CHR 0xE5, CHR 0xAD, CHR 0x98,
                 CHR 0xE5, CHR 0x9C, CHR 0xA8, CHR 0xE3, CHR 0x80, CHR 0x82, CHR 0xE5, CHR 0x8F,
                 CHR 0xAF, CHR 0xE7, CHR 0x94, CHR 0xA8, CHR 0xE5, CHR 0xB7, CHR 0xA5, CHR 0xE5,
                 CHR 0x85, CHR 0xB7] @ '': '' @
                 (case getToolNames w (agent st) of
                    [] \<Rightarrow> []
                  | n # ns \<Rightarrow> n @ concat (map (\<lambda>m. '', '' @ m) ns)),
                            Type = ''tool_error''\<rparr>]\<rparr>,
                        isWaitingForJobs = False,
                        iterationCount = iterationCount st + 1\<rparr>)"
proof -
  have n: "\<not> signals_completion action"
    using assms(1) by (simp add: signals_completion_def)
  have h: "handle_action lib w st' action =
          Continue (st'\<lparr>agent := addMessage (agent st') ''user''
            (msg_unknown_tool (Action action) (strings_Join (getToolNames w (agent st')) '', ''))
            ''tool_error''\<rparr>)" if "tools (agent st') = tools (agent st)" for st'
    using n assms(2,3) that by (intro handle_action_unknown) simp_all
  have wording: "msg_unknown_tool (Action action) (strings_Join (getToolNames w (agent st)) '', '') =
                 [CHR 0xE9, CHR 0x94, CHR 0x99, CHR 0xE8, CHR 0xAF, CHR 0xAF] @ '': '' @
                 [CHR 0xE5, CHR 0xB7, CHR 0xA5, CHR 0xE5, CHR 0x85, CHR 0xB7] @ '' '' @ [CHR 0x27] @
                 Action action @
                 [CHR 0x27] @ '' '' @ [CHR 0xE4, CHR 0xB8, CHR 0x8D, CHR 0xE5, CHR 0xAD, CHR 0x98,
                 CHR 0xE5, CHR 0x9C, CHR 0xA8, CHR 0xE3, CHR 0x80, CHR 0x82, CHR 0xE5, CHR 0x8F,
                 CHR 0xAF, CHR 0xE7, CHR 0x94, CHR 0xA8, CHR 0xE5, CHR 0xB7, CHR 0xA5, CHR 0xE5,
                 CHR 0x85, CHR 0xB7] @ '': '' @
                 (case getToolNames w (agent st) of
                    [] \<Rightarrow> []
                  | n # ns \<Rightarrow> n @ concat (map (\<lambda>m. '', '' @ m) ns))"
    by (simp add: msg_unknown_tool_def strings_Join_concat)
  have pass: "loop_body lib w st =
      Continue \<lparr>agent = (agent st)\<lparr>messages := messages (agent st) @
                  [\<lparr>Role = ''assistant'', Content = content, Type = ''llm_output''\<rparr>,
                   \<lparr>Role = ''user'',
                    Content = msg_unknown_tool (Action action)
                                (strings_Join (getToolNames w (agent st)) '', ''),
                    Type = ''tool_error''\<rparr>]\<rparr>,
                isWaitingForJobs = False,
                iterationCount = iterationCount st + 1\<rparr>"
    if "backgroundJobs (agent st) = Map.empty" "\<not> isWaitingForJobs st"
      "llmReply w (llmMsgs_of (agent st)) = Inr content"
      "parseLLMResponse (json_Unmarshal lib) content = Inr action"
    using that by (simp add: loop_body_idle h) (simp add: addMessage_def)
  have act: "handle_action lib w st action =
      Continue (st\<lparr>agent := (agent st)\<lparr>messages := messages (agent st) @
        [\<lparr>Role = ''user'',
          Content = msg_unknown_tool (Action action)
                      (strings_Join (getToolNames w (agent st)) '', ''),
          Type = ''tool_error''\<rparr>]\<rparr>\<rparr>)"
    using h [of st] by (simp add: addMessage_def)
  show ?thesis
    using act pass assms(4) unfolding wording
    by (simp only: getToolNames_set getToolNames_distinct) blast
qed



subsection \<open>The example replies, world and agent\<close>

lemma ex_parse_complete_tool:
  "parseLLMResponse (json_Unmarshal ex_lib) reply_complete_tool = Inr action_complete_tool"
  by (simp add: parseLLMResponse_def ex_lib_def ex_unmarshal_def reply_complete_tool_def
      go_slice_def Let_def)


lemma ex_parse_unknown_tool:
  "parseLLMResponse (json_Unmarshal ex_lib) reply_unknown_tool = Inr action_unknown_tool"
  by (simp add: parseLLMResponse_def ex_lib_def ex_unmarshal_def reply_complete_tool_def
      reply_finish_no_payload_def reply_unknown_tool_def go_slice_def Let_def)

lemma ex_agent_fields:
  "maxIterations ex_agent = 2"
  "backgroundJobs ex_agent = Map.empty"
  "tools ex_agent = [''FileTool'' \<mapsto> file_tool, ''TaskDelegator'' \<mapsto> delegator_tool]"
  "systemPrompt ex_agent = default_systemPrompt"
  by (simp_all add: ex_agent_def NewAgent_def WithTools_def WithMaxIterations_def
      file_tool_def delegator_tool_def)

lemma ex_agent_busy_fields:
  "maxIterations ex_agent_busy = 2"
  "backgroundJobs ex_agent_busy = [''job-1'' \<mapsto> ex_job]"
  by (simp_all add: ex_agent_busy_def ex_agent_fields)

lemma ex_world_fields:
  "llmReply (ex_world reply) llmMsgs = Inr reply"
  "jobsOrder (ex_world reply) = [''job-1'']"
  "jobPoll (ex_world reply) jobID = NotReady"
  "toolsOrder (ex_world reply) = [''TaskDelegator'', ''FileTool'']"
  by (simp_all add: ex_world_def)

lemma ex_poll_busy:
  "checkAndInjectBackgroundJobs ex_lib (ex_world reply) ex_agent_busy = (ex_agent_busy, False)"
  by (simp add: checkAndInjectBackgroundJobs_def go_range_def ex_world_fields
      ex_agent_busy_fields)

lemma ex_signals:
  "signals_completion action_complete_tool"
  "signals_completion action_finish_no_payload"
  "\<not> signals_completion action_unknown_tool"
  by (simp_all add: signals_completion_def action_complete_tool_def
      action_finish_no_payload_def action_unknown_tool_def)

lemma ex_run_complete_tool:
  "run_loop ex_lib (\<lambda>t. ex_world reply_complete_tool) 0 (ex_state ex_agent) =
     Some \<lparr>agentAfter = addMessage ex_agent ''assistant'' reply_complete_tool ''llm_output'',
           passes = 1, response = ''all done'', failure = None\<rparr>"
proof -
  have "run_loop ex_lib (\<lambda>t. ex_world reply_complete_tool) 0 (ex_state ex_agent) =
     Some \<lparr>agentAfter = addMessage (agent (ex_state ex_agent)) ''assistant'' reply_complete_tool ''llm_output'',
           passes = Suc 0,
           response = string_or_zero (ActionInput action_complete_tool ''final_response''),
           failure = None\<rparr>"
    by (rule run_loop_finish [where action = action_complete_tool])
      (simp_all add: ex_signals ex_state_def ex_agent_fields ex_world_fields
        ex_parse_complete_tool)
  then show ?thesis
    by (simp add: ex_state_def action_complete_tool_def string_or_zero_def)
qed

lemma ex_agent_last_fields:
  "maxIterations ex_agent_last = 1"
  "backgroundJobs ex_agent_last = [''job-1'' \<mapsto> ex_job]"
  "messages ex_agent_last = []"
  "tools ex_agent_last = tools ex_agent"
  "systemPrompt ex_agent_last = systemPrompt ex_agent"
  by (simp_all add: ex_agent_last_def ex_agent_busy_def ex_agent_def NewAgent_def WithTools_def
      WithMaxIterations_def)

lemma ex_poll_pending:
  "backgroundJobs a = [''job-1'' \<mapsto> ex_job] \<Longrightarrow>
   checkAndInjectBackgroundJobs ex_lib (ex_world reply) a = (a, False)"
  by (simp add: checkAndInjectBackgroundJobs_def go_range_def ex_world_fields)

text \<open>
  C2 (as amended) on the example agent with the job \<open>job-1\<close> tracked and pending, when the
  model replies with the status \<open>complete\<close>.  With the budget of two iterations the action
  and the pass leave the loop in the waiting state, with the note appended ("system
  notice: your request to finish was received, but background tasks are still running.
  The system will wait for them before the final summary. To wait without finishing, use
  the 'wait' action.", in the source's Chinese wording); no response is returned, the loop
  goes on from that state, and the next pass there changes nothing.  With the budget of one
  iteration the loop returns the fallback text after that pass.  On the example agent with
  no job, the response is returned.
\<close>

theorem finish_with_pending_jobs_witness:
  "signals_completion action_complete_tool \<and>
   backgroundJobs (agent (ex_state ex_agent_busy)) \<noteq> Map.empty \<and>
   handle_action ex_lib (ex_world reply_complete_tool) (ex_state ex_agent_busy)
       action_complete_tool =
     Continue \<lparr>agent = ex_agent_busy\<lparr>messages := messages ex_agent_busy @
                 [\<lparr>Role = ''user'', Content = note_finish_pending, Type = ''system_note''\<rparr>]\<rparr>,
               isWaitingForJobs = True, iterationCount = 0\<rparr> \<and>
   loop_body ex_lib (ex_world reply_complete_tool) (ex_state ex_agent_busy) =
     Continue \<lparr>agent = ex_agent_busy\<lparr>messages :=
       [\<lparr>Role = ''assistant'', Content = reply_complete_tool, Type = ''llm_output''\<rparr>,
        \<lparr>Role = ''user'',
          Content =
            [CHR 0xE7, CHR 0xB3, CHR 0xBB, CHR 0xE7, CHR 0xBB, CHR 0x9F, CHR 0xE6, CHR 0x8F, CHR 0x90,
            CHR 0xE7, CHR 0xA4, CHR 0xBA] @ '': '' @ [CHR 0xE4, CHR 0xBD, CHR 0xA0, CHR 0xE7,
            CHR 0x9A, CHR 0x84, CHR 0xE5, CHR 0xAE, CHR 0x8C, CHR 0xE6, CHR 0x88, CHR 0x90, CHR 0xE8,
            CHR 0xAF, CHR 0xB7, CHR 0xE6, CHR 0xB1, CHR 0x82, CHR 0xE5, CHR 0xB7, CHR 0xB2, CHR 0xE6,
            CHR 0x94, CHR 0xB6, CHR 0xE5, CHR 0x88, CHR 0xB0, CHR 0xEF, CHR 0xBC, CHR 0x8C, CHR 0xE4,
            CHR 0xBD, CHR 0x86, CHR 0xE5, CHR 0x90, CHR 0x8E, CHR 0xE5, CHR 0x8F, CHR 0xB0, CHR 0xE4,
            CHR 0xBB, CHR 0xBB, CHR 0xE5, CHR 0x8A, CHR 0xA1, CHR 0xE4, CHR 0xBB, CHR 0x8D, CHR 0xE5,
            CHR 0x9C, CHR 0xA8, CHR 0xE8, CHR 0xBF, CHR 0x90, CHR 0xE8, CHR 0xA1, CHR 0x8C, CHR 0xE3,
            CHR 0x80, CHR 0x82, CHR 0xE7, CHR 0xB3, CHR 0xBB, CHR 0xE7, CHR 0xBB, CHR 0x9F, CHR 0xE5,
            CHR 0xB0, CHR 0x86, CHR 0xE7, CHR 0xAD, CHR 0x89, CHR 0xE5, CHR 0xBE, CHR 0x85, CHR 0xE5,
            CHR 0xAE, CHR 0x83, CHR 0xE4, CHR 0xBB, CHR 0xAC, CHR 0xE5, CHR 0xAE, CHR 0x8C, CHR 0xE6,
            CHR 0x88, CHR 0x90, CHR 0xE5, CHR 0x90, CHR 0x8E, CHR 0xE5, CHR 0x86, CHR 0x8D, CHR 0xE7,
            CHR 0x94, CHR 0x9F, CHR 0xE6, CHR 0x88, CHR 0x90, CHR 0xE6, CHR 0x9C, CHR 0x80, CHR 0xE7,
            CHR 0xBB, CHR 0x88, CHR 0xE6, CHR 0x91, CHR 0x98, CHR 0xE8, CHR 0xA6, CHR 0x81, CHR 0xE3,
            CHR 0x80, CHR 0x82, CHR 0xE8, CHR 0xA6, CHR 0x81, CHR 0xE6, CHR 0x98, CHR 0x8E, CHR 0xE7,
            CHR 0xA1, CHR 0xAE, CHR 0xE7, CHR 0xAD, CHR 0x89, CHR 0xE5, CHR 0xBE, CHR 0x85, CHR 0xE8,
            CHR 0x80, CHR 0x8C, CHR 0xE4, CHR 0xB8, CHR 0x8D, CHR 0xE7, CHR 0xBB, CHR 0x93, CHR 0xE6,
            CHR 0x9D, CHR 0x9F, CHR 0xEF, CHR 0xBC, CHR 0x8C, CHR 0xE8, CHR 0xAF, CHR 0xB7, CHR 0xE4,
            CHR 0xBD, CHR 0xBF, CHR 0xE7, CHR 0x94, CHR 0xA8] @ '' '' @ [CHR 0x27] @ ''wait'' @
            [CHR 0x27] @ '' '' @ [CHR 0xE5, CHR 0x8A, CHR 0xA8, CHR 0xE4, CHR 0xBD, CHR 0x9C,
            CHR 0xE3, CHR 0x80, CHR 0x82],
          Type = ''system_note''\<rparr>]\<rparr>,
               isWaitingForJobs = True, iterationCount = 1\<rparr> \<and>
   run_loop ex_lib (\<lambda>t. ex_world reply_complete_tool) 0 (ex_state ex_agent_busy) =
     run_loop ex_lib (\<lambda>t. ex_world reply_complete_tool) 1
       \<lparr>agent = ex_agent_busy\<lparr>messages :=
          [\<lparr>Role = ''assistant'', Content = reply_complete_tool, Type = ''llm_output''\<rparr>,
           \<lparr>Role = ''user'', Content = note_finish_pending, Type = ''system_note''\<rparr>]\<rparr>,
        isWaitingForJobs = True, iterationCount = 1\<rparr> \<and>
   loop_body ex_lib (ex_world reply_complete_tool)
       \<lparr>agent = ex_agent_busy\<lparr>messages :=
          [\<lparr>Role = ''assistant'', Content = reply_complete_tool, Type = ''llm_output''\<rparr>,
           \<lparr>Role = ''user'', Content = note_finish_pending, Type = ''system_note''\<rparr>]\<rparr>,
        isWaitingForJobs = True, iterationCount = 1\<rparr> =
     Continue
       \<lparr>agent = ex_agent_busy\<lparr>messages :=
          [\<lparr>Role = ''assistant'', Content = reply_complete_tool, Type = ''llm_output''\<rparr>,
           \<lparr>Role = ''user'', Content = note_finish_pending, Type = ''system_note''\<rparr>]\<rparr>,
        isWaitingForJobs = True, iterationCount = 1\<rparr> \<and>
   (\<forall>a res. loop_body ex_lib (ex_world reply_complete_tool) (ex_state ex_agent_busy)
               \<noteq> Return a res None) \<and>
   run_loop ex_lib (\<lambda>t. ex_world reply_complete_tool) 0 (ex_state ex_agent_last) =
     Some \<lparr>agentAfter = ex_agent_last\<lparr>messages :=
             [\<lparr>Role = ''assistant'', Content = reply_complete_tool, Type = ''llm_output''\<rparr>,
              \<lparr>Role = ''user'', Content = note_finish_pending, Type = ''system_note''\<rparr>]\<rparr>,
           passes = 1, response = fallback_text, failure = None\<rparr> \<and>
   run_loop ex_lib (\<lambda>t. ex_world reply_complete_tool) 0 (ex_state ex_agent) =
     Some \<lparr>agentAfter = addMessage ex_agent ''assistant'' reply_complete_tool ''llm_output'',
           passes = 1, response = ''all done'', failure = None\<rparr> \<and>
   backgroundJobs (addMessage ex_agent ''assistant'' reply_complete_tool ''llm_output'') = Map.empty"
proof -
  let ?w = "ex_world reply_complete_tool"
  let ?st = "ex_state ex_agent_busy"
  let ?msgs = "[\<lparr>Role = ''assistant'', Content = reply_complete_tool, Type = ''llm_output''\<rparr>,
                \<lparr>Role = ''user'', Content = note_finish_pending, Type = ''system_note''\<rparr>]"
  let ?s1 = "\<lparr>agent = ex_agent_busy\<lparr>messages := ?msgs\<rparr>,
             isWaitingForJobs = True, iterationCount = 1\<rparr>"
  let ?out = "\<lparr>agentAfter = addMessage ex_agent ''assistant'' reply_complete_tool ''llm_output'',
             passes = 1, response = ''all done'', failure = None\<rparr>"
  note busy = finish_with_pending_jobs [where action = action_complete_tool and st = ?st
      and lib = ex_lib and w = ?w and W = "\<lambda>t. ?w" and t = 0 and ?a1.0 = ex_agent_busy
      and injected = False and content = reply_complete_tool]
  note waiting = finish_with_pending_jobs [where st = ?s1 and lib = ex_lib and w = ?w
      and ?a1.0 = "ex_agent_busy\<lparr>messages := ?msgs\<rparr>"]
  note last = finish_with_pending_jobs [where action = action_complete_tool
      and st = "ex_state ex_agent_last" and lib = ex_lib and W = "\<lambda>t. ?w" and t = 0
      and ?a1.0 = ex_agent_last and injected = False and content = reply_complete_tool]
  note idle = finish_with_pending_jobs [where lib = ex_lib and W = "\<lambda>t. ?w" and t = 0
      and st = "ex_state ex_agent" and out = ?out]
  have sig: "signals_completion action_complete_tool"
    by (rule ex_signals)
  have jobs: "backgroundJobs (agent ?st) \<noteq> Map.empty"
    by (simp add: ex_state_def ex_agent_busy_fields)
  have poll: "checkAndInjectBackgroundJobs ex_lib ?w (agent ?st) = (ex_agent_busy, False)"
    by (simp add: ex_state_def ex_poll_busy)
  have empty: "messages ex_agent_busy = []"
    by (simp add: ex_agent_busy_def ex_agent_def NewAgent_def WithTools_def WithMaxIterations_def)
  have c1: "handle_action ex_lib ?w ?st action_complete_tool =
     Continue \<lparr>agent = ex_agent_busy\<lparr>messages := messages ex_agent_busy @
                 [\<lparr>Role = ''user'', Content = note_finish_pending, Type = ''system_note''\<rparr>]\<rparr>,
               isWaitingForJobs = True, iterationCount = 0\<rparr>"
    using busy [THEN conjunct1] sig jobs by (simp add: ex_state_def)
  have c2: "loop_body ex_lib ?w ?st = Continue ?s1"
    using busy [THEN conjunct2, THEN conjunct1] sig poll
    by (simp add: ex_state_def ex_agent_busy_fields ex_world_fields ex_parse_complete_tool empty)
  have c3: "run_loop ex_lib (\<lambda>t. ?w) 0 ?st = run_loop ex_lib (\<lambda>t. ?w) 1 ?s1"
    using busy [THEN conjunct2, THEN conjunct2, THEN conjunct1] sig poll
    by (simp add: ex_state_def ex_agent_busy_fields ex_world_fields ex_parse_complete_tool empty)
  have poll1: "checkAndInjectBackgroundJobs ex_lib ?w (agent ?s1) =
                 (ex_agent_busy\<lparr>messages := ?msgs\<rparr>, False)"
    by (simp add: ex_poll_pending ex_agent_busy_fields)
  have c4: "loop_body ex_lib ?w ?s1 = Continue ?s1"
    using waiting [THEN conjunct2, THEN conjunct2, THEN conjunct2, THEN conjunct1] poll1
    by (simp add: ex_agent_busy_fields)
  have c5: "\<forall>a res. loop_body ex_lib ?w ?st \<noteq> Return a res None"
    using busy [THEN conjunct2, THEN conjunct2, THEN conjunct2, THEN conjunct2, THEN conjunct1]
      poll
    by (simp add: ex_agent_busy_fields)
  have poll2: "checkAndInjectBackgroundJobs ex_lib ?w (agent (ex_state ex_agent_last)) =
                 (ex_agent_last, False)"
    by (simp add: ex_state_def ex_poll_pending ex_agent_last_fields)
  have c6: "run_loop ex_lib (\<lambda>t. ?w) 0 (ex_state ex_agent_last) =
     Some \<lparr>agentAfter = ex_agent_last\<lparr>messages := ?msgs\<rparr>,
           passes = 1, response = fallback_text, failure = None\<rparr>"
    using last [THEN conjunct2, THEN conjunct2, THEN conjunct1] sig poll2
    by (simp add: ex_state_def ex_agent_last_fields ex_world_fields ex_parse_complete_tool)
  have neq: "''all done'' \<noteq> fallback_text"
    by (simp add: fallback_text_def)
  have c7: "backgroundJobs (addMessage ex_agent ''assistant'' reply_complete_tool ''llm_output'')
              = Map.empty"
    using idle [THEN conjunct2, THEN conjunct2, THEN conjunct2, THEN conjunct2, THEN conjunct2]
      ex_run_complete_tool neq
    by simp
  have lit: "?s1 =
     \<lparr>agent = ex_agent_busy\<lparr>messages :=
       [\<lparr>Role = ''assistant'', Content = reply_complete_tool, Type = ''llm_output''\<rparr>,
        \<lparr>Role = ''user'',
          Content =
            [CHR 0xE7, CHR 0xB3, CHR 0xBB, CHR 0xE7, CHR 0xBB, CHR 0x9F, CHR 0xE6, CHR 0x8F, CHR 0x90,
            CHR 0xE7, CHR 0xA4, CHR 0xBA] @ '': '' @ [CHR 0xE4, CHR 0xBD, CHR 0xA0, CHR 0xE7,
            CHR 0x9A, CHR 0x84, CHR 0xE5, CHR 0xAE, CHR 0x8C, CHR 0xE6, CHR 0x88, CHR 0x90, CHR 0xE8,
            CHR 0xAF, CHR 0xB7, CHR 0xE6, CHR 0xB1, CHR 0x82, CHR 0xE5, CHR 0xB7, CHR 0xB2, CHR 0xE6,
            CHR 0x94, CHR 0xB6, CHR 0xE5, CHR 0x88, CHR 0xB0, CHR 0xEF, CHR 0xBC, CHR 0x8C, CHR 0xE4,
            CHR 0xBD, CHR 0x86, CHR 0xE5, CHR 0x90, CHR 0x8E, CHR 0xE5, CHR 0x8F, CHR 0xB0, CHR 0xE4,
            CHR 0xBB, CHR 0xBB, CHR 0xE5, CHR 0x8A, CHR 0xA1, CHR 0xE4, CHR 0xBB, CHR 0x8D, CHR 0xE5,
            CHR 0x9C, CHR 0xA8, CHR 0xE8, CHR 0xBF, CHR 0x90, CHR 0xE8, CHR 0xA1, CHR 0x8C, CHR 0xE3,
            CHR 0x80, CHR 0x82, CHR 0xE7, CHR 0xB3, CHR 0xBB, CHR 0xE7, CHR 0xBB, CHR 0x9F, CHR 0xE5,
            CHR 0xB0, CHR 0x86, CHR 0xE7, CHR 0xAD, CHR 0x89, CHR 0xE5, CHR 0xBE, CHR 0x85, CHR 0xE5,
            CHR 0xAE, CHR 0x83, CHR 0xE4, CHR 0xBB, CHR 0xAC, CHR 0xE5, CHR 0xAE, CHR 0x8C, CHR 0xE6,
            CHR 0x88, CHR 0x90, CHR 0xE5, CHR 0x90, CHR 0x8E, CHR 0xE5, CHR 0x86, CHR 0x8D, CHR 0xE7,
            CHR 0x94, CHR 0x9F, CHR 0xE6, CHR 0x88, CHR 0x90, CHR 0xE6, CHR 0x9C, CHR 0x80, CHR 0xE7,
            CHR 0xBB, CHR 0x88, CHR 0xE6, CHR 0x91, CHR 0x98, CHR 0xE8, CHR 0xA6, CHR 0x81, CHR 0xE3,
            CHR 0x80, CHR 0x82, CHR 0xE8, CHR 0xA6, CHR 0x81, CHR 0xE6, CHR 0x98, CHR 0x8E, CHR 0xE7,
            CHR 0xA1, CHR 0xAE, CHR 0xE7, CHR 0xAD, CHR 0x89, CHR 0xE5, CHR 0xBE, CHR 0x85, CHR 0xE8,
            CHR 0x80, CHR 0x8C, CHR 0xE4, CHR 0xB8, CHR 0x8D, CHR 0xE7, CHR 0xBB, CHR 0x93, CHR 0xE6,
            CHR 0x9D, CHR 0x9F, CHR 0xEF, CHR 0xBC, CHR 0x8C, CHR 0xE8, CHR 0xAF, CHR 0xB7, CHR 0xE4,
            CHR 0xBD, CHR 0xBF, CHR 0xE7, CHR 0x94, CHR 0xA8] @ '' '' @ [CHR 0x27] @ ''wait'' @
            [CHR 0x27] @ '' '' @ [CHR 0xE5, CHR 0x8A, CHR 0xA8, CHR 0xE4, CHR 0xBD, CHR 0x9C,
            CHR 0xE3, CHR 0x80, CHR 0x82],
          Type = ''system_note''\<rparr>]\<rparr>,
               isWaitingForJobs = True, iterationCount = 1\<rparr>"
    by (simp add: note_finish_pending_def)
  from sig jobs c1 c2 [unfolded lit] c3 c4 c5 c6 ex_run_complete_tool c7 show ?thesis
    by (intro conjI)
qed

text \<open>
  C2 as stated fails.  The agent below has one iteration in its budget and the job \<open>job-1\<close>
  tracked, which does not finish.  The model's first reply signals completion.  \<open>Run\<close>
  does return, after this one pass: the loop condition fails on the counter the pass has
  raised, and the result is the fallback text with a \<open>nil\<close> error, the job still tracked.
\<close>

theorem finish_with_pending_jobs_counterexample:
  "maxIterations ex_agent_last = 1 \<and>
   backgroundJobs ex_agent_last = [''job-1'' \<mapsto> ex_job] \<and>
   parseLLMResponse (json_Unmarshal ex_lib) reply_complete_tool = Inr action_complete_tool \<and>
   signals_completion action_complete_tool \<and>
   run_loop ex_lib (\<lambda>t. ex_world reply_complete_tool) 0 (ex_state ex_agent_last) =
     Some \<lparr>agentAfter = ex_agent_last\<lparr>messages :=
             [\<lparr>Role = ''assistant'', Content = reply_complete_tool, Type = ''llm_output''\<rparr>,
              \<lparr>Role = ''user'', Content = note_finish_pending, Type = ''system_note''\<rparr>]\<rparr>,
           passes = 1,
           response =
            [CHR 0xE5, CHR 0xB7, CHR 0xB2, CHR 0xE8, CHR 0xBE, CHR 0xBE, CHR 0xE5, CHR 0x88, CHR 0xB0,
            CHR 0xE6, CHR 0x9C, CHR 0x80, CHR 0xE5, CHR 0xA4, CHR 0xA7, CHR 0xE8, CHR 0xBF, CHR 0xAD,
            CHR 0xE4, CHR 0xBB, CHR 0xA3, CHR 0xE6, CHR 0xAC, CHR 0xA1, CHR 0xE6, CHR 0x95, CHR 0xB0,
            CHR 0xEF, CHR 0xBC, CHR 0x8C, CHR 0xE4, CHR 0xBD, CHR 0x86, CHR 0xE6, CHR 0x9C, CHR 0xAA,
            CHR 0xE6, CHR 0x89, CHR 0xBE, CHR 0xE5, CHR 0x88, CHR 0xB0, CHR 0xE7, CHR 0xAD, CHR 0x94,
            CHR 0xE6, CHR 0xA1, CHR 0x88, CHR 0xE3, CHR 0x80, CHR 0x82],
           failure = None\<rparr> \<and>
   map_option response
       (Run ex_lib [''FileTool'', ''TaskDelegator''] (\<lambda>t. ex_world reply_complete_tool)
          ex_agent_last ''hello'') =
     Some fallback_text \<and>
   map_option failure
       (Run ex_lib [''FileTool'', ''TaskDelegator''] (\<lambda>t. ex_world reply_complete_tool)
          ex_agent_last ''hello'') =
     Some None \<and>
   map_option passes
       (Run ex_lib [''FileTool'', ''TaskDelegator''] (\<lambda>t. ex_world reply_complete_tool)
          ex_agent_last ''hello'') =
     Some 1 \<and>
   map_option (backgroundJobs \<circ> agentAfter)
       (Run ex_lib [''FileTool'', ''TaskDelegator''] (\<lambda>t. ex_world reply_complete_tool)
          ex_agent_last ''hello'') =
     Some [''job-1'' \<mapsto> ex_job]"
proof -
  let ?w = "ex_world reply_complete_tool"
  let ?order = "[''FileTool'', ''TaskDelegator'']"
  let ?msgs = "[\<lparr>Role = ''assistant'', Content = reply_complete_tool, Type = ''llm_output''\<rparr>,
                \<lparr>Role = ''user'', Content = note_finish_pending, Type = ''system_note''\<rparr>]"
  have sig: "signals_completion action_complete_tool"
    by (rule ex_signals)
  have loop: "run_loop ex_lib (\<lambda>t. ?w) 0 \<lparr>agent = a, isWaitingForJobs = False, iterationCount = 0\<rparr> =
      Some \<lparr>agentAfter = a\<lparr>messages := messages a @ ?msgs\<rparr>,
            passes = 1, response = fallback_text, failure = None\<rparr>"
    if "backgroundJobs a = [''job-1'' \<mapsto> ex_job]" "maxIterations a = 1" for a
    using run_loop_finish_pending [where lib = ex_lib and W = "\<lambda>t. ?w" and t = 0
        and st = "\<lparr>agent = a, isWaitingForJobs = False, iterationCount = 0\<rparr>" and ?a1.0 = a
        and injected = False and content = reply_complete_tool
        and action = action_complete_tool] that sig
    by (simp add: ex_poll_pending ex_world_fields ex_parse_complete_tool)
  have c1: "run_loop ex_lib (\<lambda>t. ?w) 0 (ex_state ex_agent_last) =
     Some \<lparr>agentAfter = ex_agent_last\<lparr>messages := ?msgs\<rparr>,
           passes = 1, response = fallback_text, failure = None\<rparr>"
    using loop [of ex_agent_last] by (simp add: ex_state_def ex_agent_last_fields)
  obtain p where prompt:
    "buildSystemPrompt ex_lib ?order (systemPrompt ex_agent_last) (tools ex_agent_last) = Inr p"
    by (simp add: buildSystemPrompt_def go_range_def ex_agent_last_fields ex_agent_fields
        FormatForPrompt_def ex_lib_def)
  let ?a2 = "addMessage (addMessage ex_agent_last ''system'' p ''system_prompt'')
               ''user'' ''hello'' ''user_input''"
  have "Run ex_lib ?order (\<lambda>t. ?w) ex_agent_last ''hello'' =
      Some \<lparr>agentAfter = ?a2\<lparr>messages := messages ?a2 @ ?msgs\<rparr>,
            passes = 1, response = fallback_text, failure = None\<rparr>"
    using loop [of ?a2] prompt
    by (simp add: Run_def initial_state_def ex_agent_last_fields)
  then have c2: "map_option response (Run ex_lib ?order (\<lambda>t. ?w) ex_agent_last ''hello'') =
        Some fallback_text"
    and c3: "map_option failure (Run ex_lib ?order (\<lambda>t. ?w) ex_agent_last ''hello'') = Some None"
    and c4: "map_option passes (Run ex_lib ?order (\<lambda>t. ?w) ex_agent_last ''hello'') = Some 1"
    and c5: "map_option (backgroundJobs \<circ> agentAfter)
        (Run ex_lib ?order (\<lambda>t. ?w) ex_agent_last ''hello'') = Some [''job-1'' \<mapsto> ex_job]"
    by (simp_all add: ex_agent_last_fields)
  have lit: "fallback_text =
            [CHR 0xE5, CHR 0xB7, CHR 0xB2, CHR 0xE8, CHR 0xBE, CHR 0xBE, CHR 0xE5, CHR 0x88, CHR 0xB0,
            CHR 0xE6, CHR 0x9C, CHR 0x80, CHR 0xE5, CHR 0xA4, CHR 0xA7, CHR 0xE8, CHR 0xBF, CHR 0xAD,
            CHR 0xE4, CHR 0xBB, CHR 0xA3, CHR 0xE6, CHR 0xAC, CHR 0xA1, CHR 0xE6, CHR 0x95, CHR 0xB0,
            CHR 0xEF, CHR 0xBC, CHR 0x8C, CHR 0xE4, CHR 0xBD, CHR 0x86, CHR 0xE6, CHR 0x9C, CHR 0xAA,
            CHR 0xE6, CHR 0x89, CHR 0xBE, CHR 0xE5, CHR 0x88, CHR 0xB0, CHR 0xE7, CHR 0xAD, CHR 0x94,
            CHR 0xE6, CHR 0xA1, CHR 0x88, CHR 0xE3, CHR 0x80, CHR 0x82]"
    by (simp add: fallback_text_def)
  from ex_agent_last_fields(1,2) ex_parse_complete_tool sig c1 [unfolded lit] c2 c3 c4 c5
  show ?thesis by (intro conjI)
qed



text \<open>
  C8 on a reply that names the tool \<open>Search\<close>, which the example agent does not have: the
  message appended reads "error: tool 'Search' does not exist. Available tools:
  TaskDelegator, FileTool" (in the source's Chinese wording), with the two registered
  tools in the order of this world.
\<close>

theorem unknown_tool_reported_witness:
  "Status action_unknown_tool = ''continue'' \<and>
   Action action_unknown_tool = ''Search'' \<and>
   tools ex_agent ''Search'' = None \<and>
   dom (tools ex_agent) = {''FileTool'', ''TaskDelegator''} \<and>
   handle_action ex_lib (ex_world reply_unknown_tool) (ex_state ex_agent) action_unknown_tool =
     Continue ((ex_state ex_agent)\<lparr>agent := ex_agent\<lparr>messages := messages ex_agent @
       [\<lparr>Role = ''user'',
         Content =
           [CHR 0xE9, CHR 0x94, CHR 0x99, CHR 0xE8, CHR 0xAF, CHR 0xAF] @ '': '' @
           [CHR 0xE5, CHR 0xB7, CHR 0xA5, CHR 0xE5, CHR 0x85, CHR 0xB7] @ '' '' @
           [CHR 0x27] @ ''Search'' @ [CHR 0x27] @ '' '' @ [CHR 0xE4, CHR 0xB8, CHR 0x8D,
           CHR 0xE5, CHR 0xAD, CHR 0x98, CHR 0xE5, CHR 0x9C, CHR 0xA8, CHR 0xE3, CHR 0x80,
           CHR 0x82, CHR 0xE5, CHR 0x8F, CHR 0xAF, CHR 0xE7, CHR 0x94, CHR 0xA8, CHR 0xE5,
           CHR 0xB7, CHR 0xA5, CHR 0xE5, CHR 0x85, CHR 0xB7] @ '': TaskDelegator, FileTool'',
         Type = ''tool_error''\<rparr>]\<rparr>\<rparr>) \<and>
   set (getToolNames (ex_world reply_unknown_tool) ex_agent) = {''FileTool'', ''TaskDelegator''} \<and>
   loop_body ex_lib (ex_world reply_unknown_tool) (ex_state ex_agent) =
     Continue \<lparr>agent = ex_agent\<lparr>messages := messages ex_agent @
                 [\<lparr>Role = ''assistant'', Content = reply_unknown_tool, Type = ''llm_output''\<rparr>,
                  \<lparr>Role = ''user'',
                   Content =
           [CHR 0xE9, CHR 0x94, CHR 0x99, CHR 0xE8, CHR 0xAF, CHR 0xAF] @ '': '' @
           [CHR 0xE5, CHR 0xB7, CHR 0xA5, CHR 0xE5, CHR 0x85, CHR 0xB7] @ '' '' @
           [CHR 0x27] @ ''Search'' @ [CHR 0x27] @ '' '' @ [CHR 0xE4, CHR 0xB8, CHR 0x8D,
           CHR 0xE5, CHR 0xAD, CHR 0x98, CHR 0xE5, CHR 0x9C, CHR 0xA8, CHR 0xE3, CHR 0x80,
           CHR 0x82, CHR 0xE5, CHR 0x8F, CHR 0xAF, CHR 0xE7, CHR 0x94, CHR 0xA8, CHR 0xE5,
           CHR 0xB7, CHR 0xA5, CHR 0xE5, CHR 0x85, CHR 0xB7] @ '': TaskDelegator, FileTool'',
                   Type = ''tool_error''\<rparr>]\<rparr>,
               isWaitingForJobs = False, iterationCount = 1\<rparr>"
proof -
  let ?w = "ex_world reply_unknown_tool"
  let ?st = "ex_state ex_agent"
  have s: "Status action_unknown_tool = ''continue''"
    and a: "Action action_unknown_tool = ''Search''"
    by (simp_all add: action_unknown_tool_def)
  have t: "tools ex_agent ''Search'' = None"
    by (simp add: ex_agent_fields)
  have d: "dom (tools ex_agent) = {''FileTool'', ''TaskDelegator''}"
    by (auto simp: ex_agent_fields)
  have h1: "\<not> (Status action_unknown_tool = ''complete'' \<or>
              (Action action_unknown_tool = ''finish'' \<and> Status action_unknown_tool \<noteq> ''continue''))"
    by (simp add: action_unknown_tool_def)
  have h2: "Action action_unknown_tool \<noteq> ''wait''"
    by (simp add: action_unknown_tool_def)
  have h3: "tools (agent ?st) (Action action_unknown_tool) = None"
    by (simp add: ex_state_def a t)
  have h4: "dom (tools (agent ?st)) \<subseteq> set (toolsOrder ?w)"
    by (auto simp: ex_state_def d ex_world_fields)
  note T = unknown_tool_reported [where lib = ex_lib and content = reply_unknown_tool,
      OF h1 h2 h3 h4]
  have names: "getToolNames ?w ex_agent = [''TaskDelegator'', ''FileTool'']"
    by (simp add: getToolNames_def go_range_def ex_world_fields ex_agent_fields)
  have c1: "handle_action ex_lib ?w ?st action_unknown_tool =
     Continue (?st\<lparr>agent := ex_agent\<lparr>messages := messages ex_agent @
       [\<lparr>Role = ''user'',
         Content =
           [CHR 0xE9, CHR 0x94, CHR 0x99, CHR 0xE8, CHR 0xAF, CHR 0xAF] @ '': '' @
           [CHR 0xE5, CHR 0xB7, CHR 0xA5, CHR 0xE5, CHR 0x85, CHR 0xB7] @ '' '' @
           [CHR 0x27] @ ''Search'' @ [CHR 0x27] @ '' '' @ [CHR 0xE4, CHR 0xB8, CHR 0x8D,
           CHR 0xE5, CHR 0xAD, CHR 0x98, CHR 0xE5, CHR 0x9C, CHR 0xA8, CHR 0xE3, CHR 0x80,
           CHR 0x82, CHR 0xE5, CHR 0x8F, CHR 0xAF, CHR 0xE7, CHR 0x94, CHR 0xA8, CHR 0xE5,
           CHR 0xB7, CHR 0xA5, CHR 0xE5, CHR 0x85, CHR 0xB7] @ '': TaskDelegator, FileTool'',
         Type = ''tool_error''\<rparr>]\<rparr>\<rparr>)"
    using T [THEN conjunct1] by (simp add: ex_state_def a names)
  have c2: "set (getToolNames ?w ex_agent) = {''FileTool'', ''TaskDelegator''}"
    using T [THEN conjunct2, THEN conjunct1] by (simp add: ex_state_def d)
  have c3: "loop_body ex_lib ?w ?st =
     Continue \<lparr>agent = ex_agent\<lparr>messages := messages ex_agent @
                 [\<lparr>Role = ''assistant'', Content = reply_unknown_tool, Type = ''llm_output''\<rparr>,
                  \<lparr>Role = ''user'',
                   Content =
           [CHR 0xE9, CHR 0x94, CHR 0x99, CHR 0xE8, CHR 0xAF, CHR 0xAF] @ '': '' @
           [CHR 0xE5, CHR 0xB7, CHR 0xA5, CHR 0xE5, CHR 0x85, CHR 0xB7] @ '' '' @
           [CHR 0x27] @ ''Search'' @ [CHR 0x27] @ '' '' @ [CHR 0xE4, CHR 0xB8, CHR 0x8D,
           CHR 0xE5, CHR 0xAD, CHR 0x98, CHR 0xE5, CHR 0x9C, CHR 0xA8, CHR 0xE3, CHR 0x80,
           CHR 0x82, CHR 0xE5, CHR 0x8F, CHR 0xAF, CHR 0xE7, CHR 0x94, CHR 0xA8, CHR 0xE5,
           CHR 0xB7, CHR 0xA5, CHR 0xE5, CHR 0x85, CHR 0xB7] @ '': TaskDelegator, FileTool'',
                   Type = ''tool_error''\<rparr>]\<rparr>,
               isWaitingForJobs = False, iterationCount = 1\<rparr>"
    using T [THEN conjunct2, THEN conjunct2, THEN conjunct2]
    by (simp add: ex_state_def a names ex_agent_fields ex_world_fields ex_parse_unknown_tool)
  from s a t d c1 c2 c3 show ?thesis by blast
qed

lemma ex_unknown_pass:
  assumes "backgroundJobs (agent st) = Map.empty" and "\<not> isWaitingForJobs st"
    and "tools (agent st) ''Search'' = None"
  shows "\<exists>st'. loop_body ex_lib (ex_world reply_unknown_tool) st = Continue st' \<and>
           backgroundJobs (agent st') = Map.empty \<and> \<not> isWaitingForJobs st' \<and>
           tools (agent st') ''Search'' = None"
proof -
  have "loop_body ex_lib (ex_world reply_unknown_tool) st =
          handle_action ex_lib (ex_world reply_unknown_tool)
            \<lparr>agent = addMessage (agent st) ''assistant'' reply_unknown_tool ''llm_output'',
             isWaitingForJobs = False, iterationCount = iterationCount st + 1\<rparr>
            action_unknown_tool"
    using assms(1,2)
    by (simp add: loop_body_idle [where content = reply_unknown_tool] ex_world_fields
        ex_parse_unknown_tool)
  moreover have "Action action_unknown_tool = ''Search''"
    by (simp add: action_unknown_tool_def)
  ultimately show ?thesis
    using assms(1,3)
    by (simp add: handle_action_unknown ex_signals)
qed

lemma ex_unknown_states:
  assumes "backgroundJobs (agent st) = Map.empty" and "\<not> isWaitingForJobs st"
    and "tools (agent st) ''Search'' = None"
  shows "state_after ex_lib (\<lambda>t. ex_world reply_unknown_tool) st k = Some s \<Longrightarrow>
         backgroundJobs (agent s) = Map.empty \<and> \<not> isWaitingForJobs s \<and>
         tools (agent s) ''Search'' = None"
proof (induction k arbitrary: s)
  case 0
  with assms show ?case by simp
next
  case (Suc k)
  then obtain s0 where s0: "state_after ex_lib (\<lambda>t. ex_world reply_unknown_tool) st k = Some s0"
    and c: "loop_body ex_lib (ex_world reply_unknown_tool) s0 = Continue s"
    by (auto split: option.splits step.splits)
  from Suc.IH [OF s0] ex_unknown_pass [of s0] c show ?case by auto
qed

text \<open>
  C5 on the example agent, whose budget is two iterations, with a model that names an
  unknown tool in every reply: \<open>Run\<close> returns the fallback text after two passes.
\<close>

theorem max_iterations_fallback_witness:
  "maxIterations ex_agent = 2 \<and>
   (\<exists>final.
      Run ex_lib [''FileTool'', ''TaskDelegator''] (\<lambda>t. ex_world reply_unknown_tool)
          ex_agent ''hello'' =
        Some \<lparr>agentAfter = final, passes = 2, response = fallback_text, failure = None\<rparr>)"
proof -
  let ?W = "\<lambda>t::nat. ex_world reply_unknown_tool"
  let ?order = "[''FileTool'', ''TaskDelegator'']"
  have budget: "maxIterations ex_agent = 2" "(1::int) \<le> 2"
    by (simp_all add: ex_agent_fields)
  obtain p where prompt:
    "buildSystemPrompt ex_lib ?order (systemPrompt ex_agent) (tools ex_agent) = Inr p"
    by (simp add: buildSystemPrompt_def go_range_def ex_agent_fields FormatForPrompt_def
        ex_lib_def)
  have replies: "\<forall>t < nat 2. \<forall>llmMsgs. \<exists>content. llmReply (?W t) llmMsgs = Inr content \<and>
      (\<forall>action. parseLLMResponse (json_Unmarshal ex_lib) content = Inr action \<longrightarrow>
         \<not> signals_completion action)"
    by (simp add: ex_world_fields ex_parse_unknown_tool ex_signals)
  have init: "backgroundJobs (agent (initial_state ex_agent p ''hello'')) = Map.empty"
    "\<not> isWaitingForJobs (initial_state ex_agent p ''hello'')"
    "tools (agent (initial_state ex_agent p ''hello'')) ''Search'' = None"
    by (simp_all add: initial_state_def Let_def ex_agent_fields)
  have nowait: "\<forall>k \<le> nat 2. \<forall>s.
      state_after ex_lib ?W (initial_state ex_agent p ''hello'') k = Some s \<longrightarrow>
      \<not> isWaitingForJobs s"
    using ex_unknown_states [OF init] by blast
  from max_iterations_fallback [OF budget prompt replies nowait]
  obtain final where
    "Run ex_lib ?order ?W ex_agent ''hello'' =
       Some \<lparr>agentAfter = final, passes = nat 2, response = fallback_text, failure = None\<rparr>"
    by blast
  then show ?thesis using budget(1) by auto
qed

section \<open>Properties of the shared context\<close>

subsection \<open>Memory\<close>


lemma reach_direct: "\<forall>k a. v \<noteq> GRef k a \<Longrightarrow> reach h v = {}"
  by (cases v) (simp_all add: reach_def)







subsection \<open>Allocation\<close>


subsection \<open>The two loops of \<open>Copy\<close>\<close>








subsection \<open>Copies in fresh memory\<close>









subsection \<open>The example memory and contexts\<close>










section \<open>Properties of the parallel task delegator\<close>

lemma task_writes_length:
  "length (results (task_writes child tasks s i)) = length (results s) \<and>
   length (errs (task_writes child tasks s i)) = length (errs s)"
  by (simp add: task_writes_def split: jsonv.splits child_outcome.splits)

lemma task_writes_other:
  "j \<noteq> i \<Longrightarrow> results (task_writes child tasks s i) ! j = results s ! j \<and>
             errs (task_writes child tasks s i) ! j = errs s ! j"
  by (simp add: task_writes_def split: jsonv.splits child_outcome.splits)

lemma task_writes_own:
  assumes "i < length (results s)" and "i < length (errs s)"
    and "results s ! i = []" and "errs s ! i = None"
  shows "(results (task_writes child tasks s i) ! i, errs (task_writes child tasks s i) ! i) =
           task_slot child tasks i"
  using assms
  by (simp add: task_writes_def task_slot_def split: jsonv.splits child_outcome.splits)

text \<open>
  Each task writes its own slots only, so the order in which the writes land does not
  matter: once every task has written, slot \<open>i\<close> holds what task \<open>i\<close> left there.
\<close>

lemma foldl_task_writes:
  assumes "distinct sched" and "\<forall>i \<in> set sched. i < n"
    and "length (results s) = n" and "length (errs s) = n"
    and "\<forall>i \<in> set sched. results s ! i = [] \<and> errs s ! i = None"
  shows "length (results (foldl (task_writes child tasks) s sched)) = n \<and>
         length (errs (foldl (task_writes child tasks) s sched)) = n \<and>
         (\<forall>i < n. (results (foldl (task_writes child tasks) s sched) ! i,
                    errs (foldl (task_writes child tasks) s sched) ! i) =
                   (if i \<in> set sched then task_slot child tasks i
                    else (results s ! i, errs s ! i)))"
  using assms
proof (induction sched arbitrary: s)
  case Nil
  then show ?case by simp
next
  case (Cons i0 sched)
  let ?s1 = "task_writes child tasks s i0"
  have i0: "i0 < n" "i0 \<notin> set sched" using Cons.prems by auto
  have own: "(results ?s1 ! i0, errs ?s1 ! i0) = task_slot child tasks i0"
    using Cons.prems i0 by (intro task_writes_own) auto
  have len: "length (results ?s1) = n" "length (errs ?s1) = n"
    using Cons.prems task_writes_length [of child tasks s i0] by auto
  have unwritten: "\<forall>i \<in> set sched. results ?s1 ! i = [] \<and> errs ?s1 ! i = None"
  proof
    fix i assume i: "i \<in> set sched"
    with i0 have "i \<noteq> i0" by auto
    from task_writes_other [OF this, of child tasks s] Cons.prems(5) i
    show "results ?s1 ! i = [] \<and> errs ?s1 ! i = None" by simp
  qed
  have d: "distinct sched" "\<forall>i \<in> set sched. i < n" using Cons.prems by auto
  note IH = Cons.IH [OF d len unwritten]
  show ?case
  proof (intro conjI allI impI)
    fix i assume "i < n"
    with IH have e: "(results (foldl (task_writes child tasks) ?s1 sched) ! i,
                      errs (foldl (task_writes child tasks) ?s1 sched) ! i) =
                     (if i \<in> set sched then task_slot child tasks i
                      else (results ?s1 ! i, errs ?s1 ! i))"
      by blast
    show "(results (foldl (task_writes child tasks) s (i0 # sched)) ! i,
           errs (foldl (task_writes child tasks) s (i0 # sched)) ! i) =
          (if i \<in> set (i0 # sched) then task_slot child tasks i
           else (results s ! i, errs s ! i))"
    proof (cases "i = i0")
      case True
      with e i0 own show ?thesis by simp
    next
      case False
      with e task_writes_other [of i i0 child tasks s] show ?thesis by simp
    qed
  qed (use IH in simp_all)
qed

lemma run_tasks_slots:
  assumes "distinct schedule" and "set schedule = {..<length tasks}"
  shows "i < length tasks \<Longrightarrow>
         (results (run_tasks schedule child tasks) ! i, errs (run_tasks schedule child tasks) ! i) =
           task_slot child tasks i"
proof -
  have f: "filter (\<lambda>i. i < length tasks) schedule = schedule"
    using assms(2) by (auto simp: filter_id_conv)
  assume i: "i < length tasks"
  from foldl_task_writes [of schedule "length tasks"
      "\<lparr>results = make_slice [] (length tasks), errs = make_slice None (length tasks)\<rparr>"
      child tasks] assms i
  show ?thesis
    by (simp add: run_tasks_def f make_slice_def)
qed

lemma foldl_aggregate_task:
  assumes "\<forall>i \<in> set is. (results s ! i, errs s ! i) = task_slot child tasks i"
  shows "foldl (aggregate_task s) (finalResult, aggregatedErrs) is =
           (finalResult @ concat (map (task_section child tasks) is),
            aggregatedErrs @ task_errors child tasks is)"
  using assms
proof (induction "is" arbitrary: finalResult aggregatedErrs)
  case Nil
  then show ?case by simp
next
  case (Cons i rest)
  then have slot: "task_slot child tasks i = (results s ! i, errs s ! i)" by simp
  have "aggregate_task s (finalResult, aggregatedErrs) i =
          (finalResult @ task_section child tasks i,
           aggregatedErrs @ task_errors child tasks [i])"
    by (simp add: aggregate_task_def task_section_def slot Let_def split: option.splits)
  moreover have "task_errors child tasks (i # rest) =
      task_errors child tasks [i] @ task_errors child tasks rest"
    by (simp split: option.splits)
  ultimately show ?case
    using Cons by simp
qed

text \<open>
  Whatever the order in which the tasks finish, the text \<open>Execute\<close> returns is one section
  per task in input order, the section of task \<open>i\<close> (counted from zero) labelled \<open>i + 1\<close> and
  holding what this task alone produced; the error is \<open>nil\<close> when no task failed and the
  failed tasks' error texts joined otherwise.
\<close>

lemma Execute_sections:
  assumes "distinct schedule" and "set schedule = {..<length tasks}"
    and "args ''tasks'' = Some (JArray tasks)"
  shows "ParallelTaskDelegator_Execute schedule child args =
           (concat (map (task_section child tasks) [0..<length tasks]),
            if task_errors child tasks [0..<length tasks] = [] then None
            else Some (strings_Join (task_errors child tasks [0..<length tasks]) ''; ''))"
proof -
  have "\<forall>i \<in> set [0..<length tasks].
          (results (run_tasks schedule child tasks) ! i,
           errs (run_tasks schedule child tasks) ! i) = task_slot child tasks i"
    using run_tasks_slots [OF assms(1,2)] by simp
  from foldl_aggregate_task [OF this, of "[]" "[]"] show ?thesis
    by (simp add: ParallelTaskDelegator_Execute_def assms(3) Let_def)
qed

text \<open>
  C3.  For the tasks \<open>T1\<close>, \<open>T2\<close>, \<open>T3\<close> with the run of \<open>T2\<close> failing (and its writes landing
  last), \<open>Execute\<close> returns three sections labelled 1, 2, 3 in input order, the first and
  the third with the results of their tasks, and an error next to the text.  The error
  is the text of the second section, and it names the failed task as number 1, its
  position counted from zero, under the label that counts it as number 2.
\<close>

theorem Execute_three_tasks:
  "ParallelTaskDelegator_Execute [0, 2, 1] second_fails three_tasks =
     (task_header 1 @ ''done T1'' @ [CHR 0x0A] @
      task_header 2 @ task_error (err_task_run 1 ''model unavailable'') @ [CHR 0x0A] @
      task_header 3 @ ''done T3'' @ [CHR 0x0A],
      Some (task_error (err_task_run 1 ''model unavailable''))) \<and>
   err_task_run 1 ''model unavailable'' \<noteq> err_task_run 2 ''model unavailable''"
proof -
  have r: "run_tasks [0, 2, 1] second_fails [JString ''T1'', JString ''T2'', JString ''T3''] =
      \<lparr>results = [''done T1'', msg_task_run_failed ''model unavailable'', ''done T3''],
       errs = [None, Some (err_task_run 1 ''model unavailable''), None]\<rparr>"
    by (simp add: run_tasks_def task_writes_def second_fails_def make_slice_def
        numeral_3_eq_3)
  have u: "[0..<3] = [0, 1, 2]"
    by (simp add: upt_rec)
  have e: "ParallelTaskDelegator_Execute [0, 2, 1] second_fails three_tasks =
     (task_header 1 @ ''done T1'' @ [CHR 0x0A] @
      task_header 2 @ task_error (err_task_run 1 ''model unavailable'') @ [CHR 0x0A] @
      task_header 3 @ ''done T3'' @ [CHR 0x0A],
      Some (task_error (err_task_run 1 ''model unavailable'')))"
    unfolding ParallelTaskDelegator_Execute_def three_tasks_def
    by (simp add: r [simplified] u aggregate_task_def Let_def)
  have d: "fmt_d 1 \<noteq> fmt_d 2"
    by (simp add: fmt_d_def)
  have n: "err_task_run 1 ''model unavailable'' \<noteq> err_task_run 2 ''model unavailable''"
    using d by (simp add: err_task_run_def)
  from e n show ?thesis by simp
qed

end
